theory Spec2Isabelle
  imports Complex_Main "HOL-Library.Product_Lexorder" "HOL-Library.Log_Nat"
begin

section \<open>Python strings\<close>

text \<open>
  A Python \<open>str\<close> is modelled as a \<open>string\<close>. The model covers ASCII text exactly;
  a character outside ASCII is carried along as opaque bytes: it is no whitespace, no
  digit, and \<open>lower()\<close> leaves it alone.
\<close>

definition is_space :: "char \<Rightarrow> bool" where
  \<comment> \<open>\<open>str.isspace\<close> and the regex class \<open>\s\<close> on ASCII: TAB, LF, VT, FF, CR, FS, GS, RS, US, SPACE\<close>
  "is_space c = (c \<in> set [CHR 0x09, CHR 0x0A, CHR 0x0B, CHR 0x0C, CHR 0x0D,
                           CHR 0x1C, CHR 0x1D, CHR 0x1E, CHR 0x1F, CHR '' ''])"

definition lstrip :: "string \<Rightarrow> string" where
  "lstrip s = dropWhile is_space s"

definition rstrip :: "string \<Rightarrow> string" where
  "rstrip s = rev (dropWhile is_space (rev s))"

definition strip :: "string \<Rightarrow> string" where
  "strip s = rstrip (lstrip s)"

definition startswith :: "string \<Rightarrow> string \<Rightarrow> bool" where
  "startswith s p = (take (length p) s = p)"

definition endswith :: "string \<Rightarrow> string \<Rightarrow> bool" where
  "endswith s p = (length p \<le> length s \<and> drop (length s - length p) s = p)"

definition or_empty :: "string option \<Rightarrow> string" where
  \<comment> \<open>\<open>x or ""\<close> for \<open>x\<close> a string or \<open>None\<close>\<close>
  "or_empty x = (case x of None \<Rightarrow> [] | Some s \<Rightarrow> s)"

definition lower_char :: "char \<Rightarrow> char" where
  \<comment> \<open>\<open>str.lower\<close> on one ASCII character\<close>
  "lower_char c =
     (case map_of (zip ''ABCDEFGHIJKLMNOPQRSTUVWXYZ'' ''abcdefghijklmnopqrstuvwxyz'') c of
        None \<Rightarrow> c
      | Some l \<Rightarrow> l)"

definition lower :: "string \<Rightarrow> string" where
  "lower s = map lower_char s"

definition replace_chr :: "char \<Rightarrow> string \<Rightarrow> string \<Rightarrow> string" where
  \<comment> \<open>\<open>s.replace(c, r)\<close> for a one-character \<open>c\<close>\<close>
  "replace_chr c r s = concat (map (\<lambda>x. if x = c then r else [x]) s)"

fun collapse_ws :: "bool \<Rightarrow> string \<Rightarrow> string" where
  \<comment> \<open>\<open>re.sub(r"\s+", " ", s)\<close>; the flag says that the previous character was whitespace\<close>
  "collapse_ws prev [] = []"
| "collapse_ws prev (c # cs) =
     (if is_space c then (if prev then collapse_ws True cs else CHR '' '' # collapse_ws True cs)
      else c # collapse_ws False cs)"

definition clean_text :: "string \<Rightarrow> string" where
  "clean_text s = strip (collapse_ws False s)"

fun split_on :: "char \<Rightarrow> string \<Rightarrow> string list" where
  \<comment> \<open>\<open>s.split(c)\<close> for a one-character separator\<close>
  "split_on c [] = [[]]"
| "split_on c (x # xs) =
     (if x = c then [] # split_on c xs
      else (case split_on c xs of w # ws \<Rightarrow> (x # w) # ws | [] \<Rightarrow> [[x]]))"

fun join :: "string \<Rightarrow> string list \<Rightarrow> string" where
  \<comment> \<open>\<open>sep.join(xs)\<close>\<close>
  "join sep [] = []"
| "join sep [x] = x"
| "join sep (x # y # ys) = x @ sep @ join sep (y # ys)"

section \<open>Numbers\<close>

definition is_digit :: "char \<Rightarrow> bool" where
  "is_digit c = (let n = (of_char c :: nat) in 48 \<le> n \<and> n \<le> 57)"

definition digits_val :: "string \<Rightarrow> int" where
  \<comment> \<open>the number that a string of digits denotes\<close>
  "digits_val ds = foldl (\<lambda>n c. 10 * n + ((of_char c :: int) - 48)) 0 ds"

fun underscores_ok :: "char \<Rightarrow> string \<Rightarrow> bool" where
  \<comment> \<open>CPython's rule for numeric literals in strings: an underscore stands between two digits.
      The first argument is the previous character.\<close>
  "underscores_ok prev [] = True"
| "underscores_ok prev (c # cs) =
     (if c = CHR ''_''
      then is_digit prev \<and> (case cs of [] \<Rightarrow> False | d # _ \<Rightarrow> is_digit d) \<and> underscores_ok c cs
      else underscores_ok c cs)"

definition split_sign :: "string \<Rightarrow> bool \<times> string" where
  \<comment> \<open>an optional sign; the flag says that it was a minus\<close>
  "split_sign s =
     (case s of [] \<Rightarrow> (False, [])
      | c # cs \<Rightarrow> if c = CHR ''-'' then (True, cs) else if c = CHR ''+'' then (False, cs) else (False, s))"

definition py_int :: "string \<Rightarrow> int option" where
  \<comment> \<open>\<open>int(s)\<close> on a string, \<open>None\<close> where it raises \<open>ValueError\<close>\<close>
  "py_int s =
     (let t = strip s;
          (neg, b) = split_sign t;
          ds = filter (\<lambda>c. c \<noteq> CHR ''_'') b
      in if ds \<noteq> [] \<and> list_all is_digit ds \<and> underscores_ok CHR ''x'' b
         then Some (if neg then - digits_val ds else digits_val ds)
         else None)"

definition digit_char :: "nat \<Rightarrow> char" where
  \<comment> \<open>the character of a digit \<open>n < 10\<close>\<close>
  "digit_char n = ''0123456789'' ! n"

function show_nat :: "nat \<Rightarrow> string" where
  "show_nat n = (if n < 10 then [digit_char n] else show_nat (n div 10) @ [digit_char (n mod 10)])"
  by pat_completeness auto
termination
  by (relation "measure id") auto

definition show_int :: "int \<Rightarrow> string" where
  \<comment> \<open>\<open>str(i)\<close> for an integer\<close>
  "show_int i = (if i < 0 then CHR ''-'' # show_nat (nat (- i)) else show_nat (nat i))"

section \<open>Floats\<close>

text \<open>
  A Python \<open>float\<close> is an IEEE binary64 value: a sign with a magnitude that is a rational
  number, an infinity, or a NaN. The sign is kept apart so that \<open>-0.0\<close> has a value.
  \<open>float(s)\<close> and the format \<open>.2f\<close> are both correctly rounded, to nearest with ties
  to even.
\<close>

datatype pyfloat = Finite bool rat | Infinity bool | NaN

definition zero_float :: pyfloat where
  \<comment> \<open>the literal \<open>0.00\<close>\<close>
  "zero_float = Finite False 0"

definition round_half_even :: "rat \<Rightarrow> int" where
  "round_half_even x =
     (let f = \<lfloor>x\<rfloor>; d = x - of_int f
      in if d < 1 / 2 then f else if 1 / 2 < d then f + 1 else if even f then f else f + 1)"

definition pow2 :: "int \<Rightarrow> rat" where
  "pow2 e = (if 0 \<le> e then 2 ^ nat e else 1 / 2 ^ nat (- e))"

definition pow10 :: "int \<Rightarrow> rat" where
  "pow10 e = (if 0 \<le> e then 10 ^ nat e else 1 / 10 ^ nat (- e))"

definition ilog2 :: "rat \<Rightarrow> int" where
  \<comment> \<open>the \<open>e\<close> with \<open>2 ^ e \<le> x < 2 ^ (e + 1)\<close>, for \<open>0 < x\<close>: from the bit length of the
      integer part, or of the integer part of the inverse\<close>
  "ilog2 x = (if 1 \<le> x then bitlen \<lfloor>x\<rfloor> - 1 else - bitlen (\<lceil>1 / x\<rceil> - 1))"

definition round64 :: "bool \<Rightarrow> rat \<Rightarrow> pyfloat" where
  \<comment> \<open>the binary64 value nearest to a magnitude \<open>0 \<le> x\<close>: 53 significant bits, the
      subnormals share the spacing of the lowest binade, overflow gives an infinity\<close>
  "round64 neg x =
     (if x = 0 then Finite neg 0
      else let e = max (ilog2 x) (- 1022);
               q = pow2 (e - 52);
               y = of_int (round_half_even (x / q)) * q
           in if pow2 1024 \<le> y then Infinity neg else Finite neg y)"

definition parse_decimal :: "string \<Rightarrow> (int \<times> int) option" where
  \<comment> \<open>\<open>[digits] [. [digits]] [(e|E) [sign] digits]\<close> with a digit before the exponent:
      the mantissa and the power of ten\<close>
  "parse_decimal b =
     (let d1 = takeWhile is_digit b; r1 = dropWhile is_digit b;
          (d2, r2) = (case r1 of [] \<Rightarrow> ([], [])
                      | c # cs \<Rightarrow> if c = CHR ''.'' then (takeWhile is_digit cs, dropWhile is_digit cs)
                                 else ([], r1))
      in if d1 @ d2 = [] then None
         else case r2 of
           [] \<Rightarrow> Some (digits_val (d1 @ d2), - int (length d2))
         | c # cs \<Rightarrow>
             if c = CHR ''e'' \<or> c = CHR ''E''
             then let (neg, ds) = split_sign cs
                  in if ds \<noteq> [] \<and> list_all is_digit ds
                     then Some (digits_val (d1 @ d2),
                                (if neg then - digits_val ds else digits_val ds) - int (length d2))
                     else None
             else None)"

definition py_float :: "string \<Rightarrow> pyfloat option" where
  \<comment> \<open>\<open>float(s)\<close> on a string, \<open>None\<close> where it raises \<open>ValueError\<close>\<close>
  "py_float s =
     (let t = strip s
      in if \<not> underscores_ok CHR ''x'' t then None
         else let (neg, b) = split_sign (filter (\<lambda>c. c \<noteq> CHR ''_'') t); lb = lower b
              in if lb = ''inf'' \<or> lb = ''infinity'' then Some (Infinity neg)
                 else if lb = ''nan'' then Some NaN
                 else case parse_decimal b of
                        None \<Rightarrow> None
                      | Some (m, e) \<Rightarrow> Some (round64 neg (of_int m * pow10 e)))"

definition two_digits :: "nat \<Rightarrow> string" where
  "two_digits n = [digit_char (n div 10), digit_char (n mod 10)]"

definition format_2f :: "pyfloat \<Rightarrow> string" where
  \<comment> \<open>the f-string format \<open>{x:.2f}\<close>\<close>
  "format_2f x =
     (case x of
        NaN \<Rightarrow> ''nan''
      | Infinity neg \<Rightarrow> (if neg then ''-inf'' else ''inf'')
      | Finite neg m \<Rightarrow>
          (let n = nat (round_half_even (m * 100))
           in (if neg then ''-'' else []) @ show_nat (n div 100) @ ''.'' @ two_digits (n mod 100)))"

section \<open>Option rows\<close>

text \<open>
  The dict every writer appends to \<open>rows_out\<close>. \<open>option_type\<close> is optional because
  \<open>normalize_option_types_in_rows\<close> reads it with \<open>rr.get("option_type") or ""\<close>.
\<close>

record option_row =
  option_id :: int
  service_id :: int
  parent_option_id :: "int option"
  option_type :: "string option"
  option_name :: string
  option_label :: string
  option_value :: "string option"
  price_modifier :: pyfloat
  min_value :: "int option"
  max_value :: "int option"
  default_value :: "string option"
  is_required :: int
  display_order :: int
  is_active :: int
  created_at :: string
  updated_at :: string

section \<open>Output normalization\<close>

definition normalize_type :: "string option \<Rightarrow> string" where
  \<comment> \<open>the body of the loop of \<open>normalize_option_types_in_rows\<close>, on one \<open>option_type\<close>\<close>
  "normalize_type ot =
     (let t = strip (or_empty ot);
          t = (if endswith t ''_value'' then take (length t - length ''_value'') t else t);
          t = (if t = ''button'' \<or> t = ''buttons'' then ''radio'' else t)
      in t)"

definition normalize_option_types_in_rows :: "option_row list \<Rightarrow> option_row list" where
  "normalize_option_types_in_rows rows =
     map (\<lambda>r. r\<lparr>option_type := Some (normalize_type (option_type r))\<rparr>) rows"


section \<open>The page as the browser shows it\<close>

text \<open>
  One scan of the page reads one snapshot of the DOM: a tree of nodes, each with its tag,
  classes, attributes, the visibility the script of \<open>is_visible\<close> computes, its rendered
  text (\<open>el.text\<close>) and its markup (\<open>outerHTML\<close>). An element is a node together with
  what a selector can see of its ancestors (tag, classes and attributes, nearest first),
  because a CSS selector evaluated on an element may match its leading parts above that
  element.
\<close>

datatype node =
  Node (node_tag: string) (node_classes: "string list") (node_attrs: "(string \<times> string) list")
       (node_visible: bool) (node_text: string) (node_outer_html: string) (node_children: "node list")

datatype facet = Facet (facet_tag: string) (facet_classes: "string list") (facet_attrs: "(string \<times> string) list")

definition facet_of :: "node \<Rightarrow> facet" where
  "facet_of n = Facet (node_tag n) (node_classes n) (node_attrs n)"

type_synonym element = "facet list \<times> node"

datatype simple_selector = Sel "string option" "string list" "(string \<times> string) list"

type_synonym selector = "simple_selector list"

fun matches_simple :: "simple_selector \<Rightarrow> facet \<Rightarrow> bool" where
  \<comment> \<open>a tag, classes and attribute values, all of which the node must have\<close>
  "matches_simple (Sel t cs avs) (Facet nt ncs navs) =
     ((case t of None \<Rightarrow> True | Some x \<Rightarrow> nt = x)
      \<and> list_all (\<lambda>c. c \<in> set ncs) cs
      \<and> list_all (\<lambda>kv. map_of navs (fst kv) = Some (snd kv)) avs)"

fun ancestors_match :: "simple_selector list \<Rightarrow> facet list \<Rightarrow> bool" where
  \<comment> \<open>the descendant combinator: the selectors, innermost first, are met going up\<close>
  "ancestors_match [] anc = True"
| "ancestors_match (s # ss) [] = False"
| "ancestors_match (s # ss) (a # anc) =
     (if matches_simple s a then ancestors_match ss anc else ancestors_match (s # ss) anc)"

definition matches :: "selector \<Rightarrow> element \<Rightarrow> bool" where
  "matches sel e =
     (case rev sel of [] \<Rightarrow> False
      | s # ss \<Rightarrow> matches_simple s (facet_of (snd e)) \<and> ancestors_match ss (fst e))"

fun descendants :: "facet list \<Rightarrow> node \<Rightarrow> element list" where
  \<comment> \<open>the descendants of a node in document order\<close>
  "descendants anc (Node t cs avs v tx oh ch) =
     concat (map (\<lambda>c. (Facet t cs avs # anc, c) # descendants (Facet t cs avs # anc) c) ch)"

definition find_elements :: "element \<Rightarrow> selector \<Rightarrow> element list" where
  \<comment> \<open>\<open>el.find_elements(By.CSS_SELECTOR, sel)\<close>\<close>
  "find_elements e sel = filter (matches sel) (descendants (fst e) (snd e))"

definition get_attribute :: "element \<Rightarrow> string \<Rightarrow> string option" where
  "get_attribute e k = map_of (node_attrs (snd e)) k"

definition is_visible :: "element \<Rightarrow> bool" where
  "is_visible e = node_visible (snd e)"

definition get_clean_text_el :: "element \<Rightarrow> string" where
  "get_clean_text_el e = clean_text (node_text (snd e))"

definition cls :: "string \<Rightarrow> simple_selector" where
  \<comment> \<open>the selector \<open>.c\<close>\<close>
  "cls c = Sel None [c] []"

definition tg :: "string \<Rightarrow> simple_selector" where
  \<comment> \<open>the selector of a tag\<close>
  "tg t = Sel (Some t) [] []"

definition input_of_type :: "string \<Rightarrow> simple_selector" where
  \<comment> \<open>the selector \<open>input[type='t']\<close>\<close>
  "input_of_type t = Sel (Some ''input'') [] [(''type'', t)]"

definition opt_str :: "string option \<Rightarrow> string" where
  \<comment> \<open>\<open>str(x)\<close> and the f-string \<open>{x}\<close> for \<open>x\<close> a string or \<open>None\<close>\<close>
  "opt_str x = (case x of None \<Rightarrow> ''None'' | Some s \<Rightarrow> s)"

section \<open>Text and price utilities\<close>

definition keep_price_chars :: "string \<Rightarrow> string" where
  \<comment> \<open>\<open>re.sub(r"[^\d,.\-]", "", t)\<close>\<close>
  "keep_price_chars t = filter (\<lambda>c. is_digit c \<or> c = CHR '','' \<or> c = CHR ''.'' \<or> c = CHR ''-'') t"

definition fix_separators :: "string \<Rightarrow> string" where
  \<comment> \<open>with a comma and a dot the comma separates thousands; alone it is the decimal separator\<close>
  "fix_separators t =
     (if CHR '','' \<in> set t \<and> CHR ''.'' \<in> set t then replace_chr CHR '','' [] t
      else if CHR '','' \<in> set t \<and> CHR ''.'' \<notin> set t then replace_chr CHR '','' ''.'' t
      else t)"

definition parse_currency_to_decimal :: "string \<Rightarrow> string" where
  "parse_currency_to_decimal txt =
     (if txt = [] then []
      else let t = lower (strip txt)
           in if t = ''free'' \<or> t = ''basic'' then ''0.00''
              else case py_float (fix_separators (keep_price_chars t)) of
                     Some f \<Rightarrow> format_2f f
                   | None \<Rightarrow> [])"

definition parse_price_modifier :: "string \<Rightarrow> pyfloat" where
  "parse_price_modifier price_text =
     (if price_text = [] \<or> lower price_text = ''free'' \<or> lower price_text = ''basic'' then zero_float
      else let num = parse_currency_to_decimal price_text
           in if num \<noteq> [] then (case py_float num of Some f \<Rightarrow> f | None \<Rightarrow> zero_float)
              else zero_float)"

datatype modifier_kind = Percent | Absolute

definition parse_modifier :: "string option \<Rightarrow> (modifier_kind \<times> pyfloat) option" where
  \<comment> \<open>\<open>_parse_modifier\<close> of \<open>overgear_scraper_selenium.py\<close>: the dict
      \<open>{"kind": k, "value": v}\<close> as the pair \<open>(k, v)\<close>\<close>
  "parse_modifier raw =
     (case raw of None \<Rightarrow> None
      | Some r \<Rightarrow>
         if r = [] then None
         else let t = strip (dropWhile (\<lambda>c. c = CHR ''+'') (strip r))
              in if endswith t ''%''
                 then (case py_float (replace_chr CHR '','' ''.'' (strip (butlast t))) of
                         Some f \<Rightarrow> Some (Percent, f)
                       | None \<Rightarrow> None)
                 else let num = keep_price_chars t
                      in if num = [] then None
                         else (case py_float (fix_separators num) of
                                 Some f \<Rightarrow> Some (Absolute, f)
                               | None \<Rightarrow> None))"

section \<open>Range and slider detection\<close>

definition detect_slider_kind :: "element \<Rightarrow> string" where
  "detect_slider_kind group_el =
     (let knob_cnt = length (find_elements group_el
            [cls ''product-option-cluster-range'', cls ''range__body'', cls ''range__knob'']);
          inp_cnt = length (find_elements group_el
            [cls ''product-option-cluster-range'', cls ''input-container'', input_of_type ''number''])
      in if 2 \<le> knob_cnt \<or> 2 \<le> inp_cnt then ''range'' else ''slider'')"

section \<open>Semantic signatures\<close>

text \<open>
  The digest \<open>hashlib.sha256(s.encode("utf-8", "ignore")).hexdigest()\<close> is the parameter
  \<open>h\<close> of everything that signs.
\<close>

definition first_label_line :: "string \<Rightarrow> string" where
  \<comment> \<open>the first line of a radio label that is not empty, no price (\<open>+...\<close>) and not
      \<open>free\<close>; empty when there is none\<close>
  "first_label_line s =
     (case filter (\<lambda>t. t \<noteq> [] \<and> \<not> startswith t ''+'' \<and> lower t \<noteq> ''free'')
             (map strip (split_on CHR 0x0A s)) of
        [] \<Rightarrow> []
      | t # _ \<Rightarrow> t)"

definition first_clean_text :: "element list \<Rightarrow> string" where
  \<comment> \<open>\<open>clean_text(q[0].text) if q else ""\<close>\<close>
  "first_clean_text q = (case q of [] \<Rightarrow> [] | e # _ \<Rightarrow> clean_text (node_text (snd e)))"

definition radio_item :: "element \<Rightarrow> (string \<times> string \<times> string) option" where
  \<comment> \<open>label, value and price text of one \<open>.radio-option\<close>; \<open>None\<close> where the loop continues\<close>
  "radio_item ro =
     (if \<not> is_visible ro then None
      else case find_elements ro [input_of_type ''radio''] of
             [] \<Rightarrow> None
           | inp # _ \<Rightarrow>
               let val = or_empty (get_attribute inp ''value'');
                   lab_q = find_elements ro [cls ''radio-check__label''];
                   lab_txt = (case lab_q of [] \<Rightarrow> [] | l # _ \<Rightarrow> first_label_line (node_text (snd l)));
                   lab_txt = (if lab_txt = [] then get_clean_text_el ro else lab_txt);
                   price_txt = first_clean_text (find_elements ro [cls ''radio-option__price''])
               in Some (lab_txt, val, price_txt))"

definition button_item :: "element \<Rightarrow> string option" where
  \<comment> \<open>the label of one button; \<open>None\<close> where the loop continues\<close>
  "button_item btn =
     (if \<not> is_visible btn then None
      else case find_elements btn [cls ''button-option__label''] of
             [] \<Rightarrow> Some (get_clean_text_el btn)
           | l # _ \<Rightarrow> Some (get_clean_text_el l))"

definition checkbox_item :: "element \<Rightarrow> (string \<times> string \<times> string) option" where
  \<comment> \<open>label, value and price text of one \<open>.checkbox-option\<close>; a checkbox without a
      \<open>value\<close> attribute is formatted as \<open>None\<close>\<close>
  "checkbox_item co =
     (if \<not> is_visible co then None
      else let lab_txt = (case find_elements co [cls ''radio-check__label''] of
                            [] \<Rightarrow> get_clean_text_el co
                          | l # _ \<Rightarrow> get_clean_text_el l);
               val = (case find_elements co [input_of_type ''checkbox''] of
                        [] \<Rightarrow> []
                      | inp # _ \<Rightarrow> opt_str (get_attribute inp ''value''));
               price_txt = first_clean_text (find_elements co [cls ''checkbox-option__price''])
           in Some (lab_txt, val, price_txt))"

definition item_str :: "string \<times> string \<times> string \<Rightarrow> string" where
  \<comment> \<open>the f-string \<open>{lab_txt}|{val}|{price_txt}\<close>\<close>
  "item_str it = (case it of (lab_txt, val, price_txt) \<Rightarrow> lab_txt @ ''|'' @ val @ ''|'' @ price_txt)"

definition some_items :: "('a \<Rightarrow> 'b option) \<Rightarrow> 'a list \<Rightarrow> 'b list" where
  \<comment> \<open>a loop that appends one item per element it does not skip\<close>
  "some_items f xs = concat (map (\<lambda>x. case f x of None \<Rightarrow> [] | Some y \<Rightarrow> [y]) xs)"

definition select_options :: "element \<Rightarrow> element list" where
  \<comment> \<open>\<open>Select(el).options\<close>\<close>
  "select_options el = find_elements el [tg ''option'']"

definition range_canon :: "string \<Rightarrow> string \<Rightarrow> element \<Rightarrow> string" where
  \<comment> \<open>what is hashed for a slider or a range: the visible ticks of the scale and the
      non-empty input values of the first range cluster\<close>
  "range_canon kind slug cluster =
     (let scales = filter (\<lambda>t. t \<noteq> [])
                     (map (\<lambda>it. clean_text (node_text (snd it)))
                        (find_elements cluster [cls ''range__scale-item'']));
          defaults = filter (\<lambda>v. v \<noteq> [])
                       (map (\<lambda>ip. or_empty (get_attribute ip ''value''))
                          (find_elements cluster [cls ''input-container'', tg ''input'']))
      in kind @ ''|'' @ slug @ ''|scale:'' @ join '','' scales @ ''|def:'' @ join '','' defaults)"

definition radio_canon :: "string \<Rightarrow> element \<Rightarrow> string" where
  "radio_canon slug cluster =
     ''radio|'' @ slug @ ''|items:''
       @ join ''||'' (map item_str (some_items radio_item (find_elements cluster [cls ''radio-option''])))"

definition buttons_canon :: "string \<Rightarrow> element \<Rightarrow> string" where
  "buttons_canon slug cluster =
     ''buttons|'' @ slug @ ''|items:''
       @ join ''||'' (some_items button_item (find_elements cluster [tg ''button'']))"

definition checkbox_canon :: "string \<Rightarrow> element \<Rightarrow> string" where
  "checkbox_canon slug cluster =
     ''checkbox|'' @ slug @ ''|items:''
       @ join ''||'' (map item_str (some_items checkbox_item (find_elements cluster [cls ''checkbox-option''])))"

definition select_canon :: "string \<Rightarrow> element \<Rightarrow> string" where
  "select_canon slug sel =
     ''select|'' @ slug @ ''|items:''
       @ join ''||'' (map (\<lambda>opt. clean_text (node_text (snd opt))) (select_options sel))"

definition group_kind_and_signature :: "(string \<Rightarrow> string) \<Rightarrow> element \<Rightarrow> string \<times> string \<times> string" where
  \<comment> \<open>\<open>complete_code.py\<close>: kind, label and signature of one \<open>.product-option\<close>\<close>
  "group_kind_and_signature h group_el =
     (let label = (case find_elements group_el [cls ''product-option__label''] of
                     [] \<Rightarrow> ''Option''
                   | l # _ \<Rightarrow> get_clean_text_el l);
          slug = strip (replace_chr CHR '':'' [] (lower label));
          range_q = find_elements group_el [cls ''product-option-cluster-range''];
          radios_q = find_elements group_el [cls ''product-option-cluster-radios''];
          buttons_q = find_elements group_el [cls ''product-option-cluster-buttons''];
          checks_q = find_elements group_el [cls ''product-option-cluster-checkboxes''];
          select_q = find_elements group_el [cls ''product-option-cluster-select'', tg ''select'']
      in if range_q \<noteq> [] \<and> is_visible group_el
         then (let kind = detect_slider_kind group_el
               in (kind, label, h (range_canon kind slug (hd range_q))))
         else if radios_q \<noteq> [] then (''radio'', label, h (radio_canon slug (hd radios_q)))
         else if buttons_q \<noteq> [] then (''buttons'', label, h (buttons_canon slug (hd buttons_q)))
         else if checks_q \<noteq> [] then (''checkbox'', label, h (checkbox_canon slug (hd checks_q)))
         else if select_q \<noteq> [] then (''select'', label, h (select_canon slug (hd select_q)))
         else (''unknown'', label, h (''unknown|'' @ slug @ ''|'' @ take 500 (node_outer_html (snd group_el)))))"

section \<open>The classifier of the database scraper\<close>

text \<open>
  \<open>scrapper_db.py\<close> has its own \<open>group_kind_and_signature\<close>: it keys a group by its
  head label or a placeholder, decides between range and slider inside the first range
  cluster by counting its knobs and all inputs of its input containers, and does not ask
  whether the group is visible.
\<close>

definition or_else :: "string \<Rightarrow> string \<Rightarrow> string" where
  \<comment> \<open>\<open>a or b\<close> on strings\<close>
  "or_else a b = (if a \<noteq> [] then a else b)"

definition range_signature_db :: "string \<Rightarrow> element \<Rightarrow> string \<times> string \<times> string" where
  \<comment> \<open>kind, label and canonical string of a group with the range cluster \<open>cluster\<close>\<close>
  "range_signature_db head_label cluster =
     (let input_labels = filter (\<lambda>t. t \<noteq> [])
             (map get_clean_text_el (find_elements cluster [cls ''input-container'', cls ''label'']));
          knob_count = length (find_elements cluster [cls ''range__body'', cls ''range__knob'']);
          input_count = length (find_elements cluster [cls ''input-container'', tg ''input'']);
          label_for_key = (if head_label \<noteq> [] then head_label
                           else if input_labels \<noteq> [] then join '' - '' input_labels
                           else ''Range'');
          scales = filter (\<lambda>t. t \<noteq> [])
                     (map (\<lambda>it. clean_text (node_text (snd it)))
                        (find_elements cluster [cls ''range__scale-item'']));
          scale_sig = (if scales \<noteq> [] then hd scales @ ''..'' @ last scales else []);
          defaults = map (\<lambda>inp. or_empty (get_attribute inp ''value''))
                       (find_elements cluster [cls ''input-container'', tg ''input''])
      in if 2 \<le> knob_count \<or> 2 \<le> input_count
         then (''range'', label_for_key,
               ''range|'' @ label_for_key @ ''|labels:'' @ join ''|'' input_labels
                 @ ''|scale:'' @ scale_sig @ ''|defs:'' @ join ''|'' defaults)
         else (let label_for_key = (if head_label = [] \<and> input_labels \<noteq> [] then hd input_labels
                                    else or_else head_label ''Slider'');
                   defval = (if defaults \<noteq> [] then hd defaults else [])
               in (''slider'', label_for_key,
                   ''slider|'' @ label_for_key @ ''|scale:'' @ scale_sig @ ''|def:'' @ defval)))"

definition buttons_canon_db :: "string \<Rightarrow> element \<Rightarrow> string" where
  "buttons_canon_db label_for_key cluster =
     ''buttons|'' @ label_for_key @ ''|items:''
       @ join ''|'' (some_items button_item (find_elements cluster [tg ''button'']))"

definition group_kind_and_signature_db :: "(string \<Rightarrow> string) \<Rightarrow> element \<Rightarrow> string \<times> string \<times> string" where
  \<comment> \<open>\<open>scrapper_db.py\<close>: kind, label and signature of one \<open>.product-option\<close>\<close>
  "group_kind_and_signature_db h group_el =
     (let head_label = (case find_elements group_el [cls ''product-option__label''] of
                          [] \<Rightarrow> []
                        | l # _ \<Rightarrow> get_clean_text_el l);
          range_q = find_elements group_el [cls ''product-option-cluster-range''];
          radios_q = find_elements group_el [cls ''product-option-cluster-radios''];
          buttons_q = find_elements group_el [cls ''product-option-cluster-buttons''];
          checks_q = find_elements group_el [cls ''product-option-cluster-checkboxes''];
          select_q = find_elements group_el [cls ''product-option-cluster-select'', tg ''select'']
      in if range_q \<noteq> []
         then (case range_signature_db head_label (hd range_q) of
                 (kind, label_for_key, sig) \<Rightarrow> (kind, label_for_key, h sig))
         else if radios_q \<noteq> []
         then (''radio'', or_else head_label ''Radios'',
               h (radio_canon (or_else head_label ''Radios'') (hd radios_q)))
         else if buttons_q \<noteq> []
         then (''buttons'', or_else head_label ''Buttons'',
               h (buttons_canon_db (or_else head_label ''Buttons'') (hd buttons_q)))
         else if checks_q \<noteq> []
         then (''checkbox'', or_else head_label ''Checkboxes'',
               h (checkbox_canon (or_else head_label ''Checkboxes'') (hd checks_q)))
         else if select_q \<noteq> []
         then (''select'', or_else head_label ''Dropdown'',
               h (select_canon (or_else head_label ''Dropdown'') (hd select_q)))
         else (''unknown'', or_else head_label ''Option'',
               h (''unknown|'' @ or_else head_label ''Option'' @ ''|''
                    @ take 500 (node_outer_html (snd group_el)))))"

section \<open>Writers: one parent row and its children\<close>

text \<open>
  A writer appends to \<open>rows_out\<close> and returns the next option id and display order with
  the id of the parent row it wrote. The cursor \<open>(oid, disp, rows_out)\<close> (next option id, next display order, rows)
  is the state its loop threads. \<open>now\<close> is the reading of the clock the writer takes.
\<close>

type_synonym cursor = "int \<times> int \<times> option_row list"

definition name_slug :: "string \<Rightarrow> string" where
  \<comment> \<open>\<open>l.lower().replace(' ', '_').replace(':', '')\<close>\<close>
  "name_slug l = replace_chr CHR '':'' [] (replace_chr CHR '' '' ''_'' (lower l))"

definition under_slug :: "string \<Rightarrow> string" where
  \<comment> \<open>\<open>l.lower().replace(' ', '_')\<close>\<close>
  "under_slug l = replace_chr CHR '' '' ''_'' (lower l)"

definition parent_row ::
  "string \<Rightarrow> int \<Rightarrow> int \<Rightarrow> int option \<Rightarrow> string \<Rightarrow> string \<Rightarrow> string \<Rightarrow> int \<Rightarrow> int \<Rightarrow> option_row" where
  \<comment> \<open>the dict of a parent row: no value, no bounds, no default, price \<open>0.00\<close>\<close>
  "parent_row now parent_id sid parent_opt otype name label required disp =
     \<lparr>option_id = parent_id, service_id = sid, parent_option_id = parent_opt,
      option_type = Some otype, option_name = name, option_label = label, option_value = None,
      price_modifier = zero_float, min_value = None, max_value = None, default_value = None,
      is_required = required, display_order = disp, is_active = 1,
      created_at = now, updated_at = now\<rparr>"

definition extract_slider_labels :: "element \<Rightarrow> string list" where
  "extract_slider_labels group_el =
     (let labels = some_items
            (\<lambda>container. case find_elements container [cls ''label''] of
                            [] \<Rightarrow> None
                          | l # _ \<Rightarrow> (let label_text = clean_text (node_text (snd l))
                                      in if label_text \<noteq> [] then Some label_text else None))
            (find_elements group_el [cls ''input-container'']);
          labels = (if labels = []
                    then (case find_elements group_el [cls ''product-option__label''] of
                            [] \<Rightarrow> []
                          | m # _ \<Rightarrow> [clean_text (node_text (snd m))])
                    else labels)
      in if labels = [] then [''Value''] else labels)"

definition scale_bounds :: "element \<Rightarrow> int option \<times> int option" where
  \<comment> \<open>\<open>min_val\<close> and \<open>max_val\<close> from the first and the last tick; when the first tick is
      no integer neither is assigned, when only the last is not, \<open>min_val\<close> stays\<close>
  "scale_bounds group_el =
     (case find_elements group_el [cls ''product-option-cluster-range'', cls ''range__scale-item''] of
        [] \<Rightarrow> (None, None)
      | s # ss \<Rightarrow>
          (case py_int (clean_text (node_text (snd s))) of
             None \<Rightarrow> (None, None)
           | Some mn \<Rightarrow> (Some mn, py_int (clean_text (node_text (snd (last (s # ss))))))))"

definition slider_child_step ::
  "string \<Rightarrow> string \<Rightarrow> int \<Rightarrow> int \<Rightarrow> string \<Rightarrow> nat \<Rightarrow> int option \<times> int option \<Rightarrow> string list
     \<Rightarrow> cursor \<Rightarrow> nat \<times> string \<Rightarrow> cursor" where
  "slider_child_step now kind sid parent_id parent_option_name n_labels bounds default_values cur il =
     (case cur of (oid, disp, rows_out) \<Rightarrow>
      case il of (i, slider_label) \<Rightarrow>
        let value_option_name =
              (if 1 < n_labels then parent_option_name @ ''_value_'' @ show_nat (i + 1)
               else parent_option_name @ ''_value'');
            default_val = (if i < length default_values then default_values ! i else [])
        in (oid + 1, disp + 1,
            rows_out @
            [\<lparr>option_id = oid, service_id = sid, parent_option_id = Some parent_id,
              option_type = Some (kind @ ''_value''), option_name = value_option_name,
              option_label = slider_label, option_value = Some default_val,
              price_modifier = zero_float, min_value = fst bounds, max_value = snd bounds,
              default_value = Some default_val, is_required = 1, display_order = disp,
              is_active = 1, created_at = now, updated_at = now\<rparr>]))"

definition write_slider_or_range ::
  "string \<Rightarrow> element \<Rightarrow> string \<Rightarrow> string \<Rightarrow> int option \<Rightarrow> int \<Rightarrow> int \<Rightarrow> int \<Rightarrow> option_row list
     \<Rightarrow> int \<times> int \<times> int option \<times> option_row list" where
  "write_slider_or_range now group_el kind label parent_opt sid option_id_start disp rows_out =
     (let slider_labels = extract_slider_labels group_el;
          parent_option_name =
            (case slider_labels of
               [l0] \<Rightarrow> name_slug l0
             | [l0, l1] \<Rightarrow> name_slug l0 @ ''_'' @ name_slug l1
             | _ \<Rightarrow> join ''_'' (map name_slug slider_labels));
          parent_option_label =
            (case slider_labels of
               [l0] \<Rightarrow> l0
             | [l0, l1] \<Rightarrow> l0 @ '' /// '' @ l1
             | _ \<Rightarrow> join '' /// '' slider_labels);
          parent_id = option_id_start;
          rows_out = rows_out @ [parent_row now parent_id sid parent_opt kind
                                   parent_option_name parent_option_label 1 disp];
          bounds = scale_bounds group_el;
          default_values = filter (\<lambda>v. v \<noteq> [])
             (map (\<lambda>inp. or_empty (get_attribute inp ''value''))
                (find_elements group_el
                   [cls ''product-option-cluster-range'', cls ''input-container'', tg ''input'']))
      in case foldl (slider_child_step now kind sid parent_id parent_option_name
                       (length slider_labels) bounds default_values)
                (option_id_start + 1, disp + 1, rows_out)
                (zip [0 ..< length slider_labels] slider_labels) of
           (oid, disp, rows_out) \<Rightarrow> (oid, disp, Some parent_id, rows_out))"

definition button_child_step :: "string \<Rightarrow> string \<Rightarrow> int \<Rightarrow> int \<Rightarrow> cursor \<Rightarrow> element \<Rightarrow> cursor" where
  "button_child_step now label sid parent_id cur btn =
     (case cur of (oid, disp, rows_out) \<Rightarrow>
        if \<not> is_visible btn then cur
        else let txt = (case find_elements btn [cls ''button-option__label''] of
                          [] \<Rightarrow> get_clean_text_el btn
                        | l # _ \<Rightarrow> get_clean_text_el l);
                 val = under_slug txt
             in (oid + 1, disp + 1,
                 rows_out @
                 [\<lparr>option_id = oid, service_id = sid, parent_option_id = Some parent_id,
                   option_type = Some ''radio'', option_name = under_slug label @ ''_'' @ val,
                   option_label = txt, option_value = Some val, price_modifier = zero_float,
                   min_value = None, max_value = None, default_value = None, is_required = 0,
                   display_order = disp, is_active = 1,
                   created_at = now, updated_at = now\<rparr>]))"

definition write_buttons_as_radio ::
  "string \<Rightarrow> element \<Rightarrow> string \<Rightarrow> int option \<Rightarrow> int \<Rightarrow> int \<Rightarrow> int \<Rightarrow> option_row list
     \<Rightarrow> int \<times> int \<times> int option \<times> option_row list" where
  "write_buttons_as_radio now group_el label parent_opt sid option_id_start disp rows_out =
     (let parent_id = option_id_start;
          rows_out = rows_out @ [parent_row now parent_id sid parent_opt ''radio''
                                   (name_slug label) label 1 disp];
          groups = find_elements group_el [cls ''product-option-cluster-buttons'', cls ''buttons-group'']
      in case foldl (\<lambda>cur bg. foldl (button_child_step now label sid parent_id) cur
                                   (find_elements bg [tg ''button'']))
                (option_id_start + 1, disp + 1, rows_out) groups of
           (oid, disp, rows_out) \<Rightarrow> (oid, disp, Some parent_id, rows_out))"

definition radio_child_step :: "string \<Rightarrow> string \<Rightarrow> int \<Rightarrow> int \<Rightarrow> cursor \<Rightarrow> element \<Rightarrow> cursor" where
  "radio_child_step now label sid parent_id cur ro =
     (case cur of (oid, disp, rows_out) \<Rightarrow>
        if \<not> is_visible ro then cur
        else case find_elements ro [input_of_type ''radio''] of
               [] \<Rightarrow> cur
             | inp # _ \<Rightarrow>
                 let val = or_empty (get_attribute inp ''value'');
                     txt = (case find_elements ro [cls ''radio-check__label''] of
                              [] \<Rightarrow> []
                            | l # _ \<Rightarrow> first_label_line (node_text (snd l)));
                     txt = (if txt = [] then get_clean_text_el ro else txt);
                     price_mod = (case find_elements ro [cls ''radio-option__price''] of
                                    [] \<Rightarrow> zero_float
                                  | p # _ \<Rightarrow> parse_price_modifier (strip (node_text (snd p))));
                     is_checked = (get_attribute inp ''checked'' \<noteq> None)
                 in (oid + 1, disp + 1,
                     rows_out @
                     [\<lparr>option_id = oid, service_id = sid, parent_option_id = Some parent_id,
                       option_type = Some ''radio'',
                       option_name = under_slug label @ ''_'' @ under_slug txt,
                       option_label = txt, option_value = Some val, price_modifier = price_mod,
                       min_value = None, max_value = None,
                       default_value = (if is_checked then Some val else None), is_required = 0,
                       display_order = disp, is_active = 1,
                       created_at = now, updated_at = now\<rparr>]))"

definition write_radios ::
  "string \<Rightarrow> element \<Rightarrow> string \<Rightarrow> int option \<Rightarrow> int \<Rightarrow> int \<Rightarrow> int \<Rightarrow> option_row list
     \<Rightarrow> int \<times> int \<times> int option \<times> option_row list" where
  \<comment> \<open>the list \<open>value_rows\<close> that the source also returns is dropped by its only caller\<close>
  "write_radios now group_el label parent_opt sid option_id_start disp rows_out =
     (let parent_id = option_id_start;
          rows_out = rows_out @ [parent_row now parent_id sid parent_opt ''radio''
                                   (name_slug label) label 1 disp]
      in case foldl (radio_child_step now label sid parent_id)
                (option_id_start + 1, disp + 1, rows_out)
                (find_elements group_el [cls ''product-option-cluster-radios'', cls ''radio-option'']) of
           (oid, disp, rows_out) \<Rightarrow> (oid, disp, Some parent_id, rows_out))"

definition checkbox_child_step :: "string \<Rightarrow> string \<Rightarrow> int \<Rightarrow> int \<Rightarrow> cursor \<Rightarrow> element \<Rightarrow> cursor" where
  "checkbox_child_step now label sid parent_id cur co =
     (case cur of (oid, disp, rows_out) \<Rightarrow>
        if \<not> is_visible co then cur
        else case find_elements co [input_of_type ''checkbox''] of
               [] \<Rightarrow> cur
             | chk # _ \<Rightarrow>
                 let txt = (case find_elements co [cls ''radio-check__label''] of
                              [] \<Rightarrow> get_clean_text_el co
                            | l # _ \<Rightarrow> get_clean_text_el l);
                     price_mod = (case find_elements co [cls ''checkbox-option__price''] of
                                    [] \<Rightarrow> zero_float
                                  | p # _ \<Rightarrow> parse_price_modifier (strip (node_text (snd p))));
                     val = (if or_empty (get_attribute chk ''value'') \<noteq> []
                            then or_empty (get_attribute chk ''value'') else under_slug txt);
                     is_checked = (get_attribute chk ''checked'' \<noteq> None)
                 in (oid + 1, disp + 1,
                     rows_out @
                     [\<lparr>option_id = oid, service_id = sid, parent_option_id = Some parent_id,
                       option_type = Some ''checkbox'', option_name = under_slug label @ ''_'' @ val,
                       option_label = txt, option_value = Some val, price_modifier = price_mod,
                       min_value = None, max_value = None,
                       default_value = (if is_checked then Some val else None), is_required = 0,
                       display_order = disp, is_active = 1,
                       created_at = now, updated_at = now\<rparr>]))"

definition write_checkboxes ::
  "string \<Rightarrow> element \<Rightarrow> string \<Rightarrow> int option \<Rightarrow> int \<Rightarrow> int \<Rightarrow> int \<Rightarrow> option_row list
     \<Rightarrow> int \<times> int \<times> int option \<times> option_row list" where
  "write_checkboxes now group_el label parent_opt sid option_id_start disp rows_out =
     (let parent_id = option_id_start;
          rows_out = rows_out @ [parent_row now parent_id sid parent_opt ''checkbox''
                                   (name_slug label) label 0 disp]
      in case foldl (checkbox_child_step now label sid parent_id)
                (option_id_start + 1, disp + 1, rows_out)
                (find_elements group_el [cls ''product-option-cluster-checkboxes'', cls ''checkbox-option'']) of
           (oid, disp, rows_out) \<Rightarrow> (oid, disp, Some parent_id, rows_out))"

definition select_child_step :: "string \<Rightarrow> string \<Rightarrow> int \<Rightarrow> int \<Rightarrow> cursor \<Rightarrow> element \<Rightarrow> cursor" where
  "select_child_step now label sid parent_id cur opt =
     (case cur of (oid, disp, rows_out) \<Rightarrow>
        let txt = clean_text (node_text (snd opt));
            val = (if or_empty (get_attribute opt ''value'') \<noteq> []
                   then or_empty (get_attribute opt ''value'') else under_slug txt);
            defv = (if get_attribute opt ''selected'' \<noteq> None then Some val else None)
        in (oid + 1, disp + 1,
            rows_out @
            [\<lparr>option_id = oid, service_id = sid, parent_option_id = Some parent_id,
              option_type = Some ''dropdown'', option_name = under_slug label @ ''_'' @ val,
              option_label = txt, option_value = Some val, price_modifier = zero_float,
              min_value = None, max_value = None, default_value = defv, is_required = 0,
              display_order = disp, is_active = 1,
              created_at = now, updated_at = now\<rparr>]))"

definition write_select ::
  "string \<Rightarrow> element \<Rightarrow> string \<Rightarrow> int option \<Rightarrow> int \<Rightarrow> int \<Rightarrow> int \<Rightarrow> option_row list
     \<Rightarrow> int \<times> int \<times> int option \<times> option_row list" where
  \<comment> \<open>the branch \<open>kind == "select"\<close> of \<open>parse_group_to_rows_fixed\<close>; without a
      \<open>select\<close> element \<open>find_element\<close> raises and the \<open>except\<close> leaves the parent alone\<close>
  "write_select now group_el label parent_opt sid option_id_start disp rows_out =
     (let parent_id = option_id_start;
          rows_out = rows_out @ [parent_row now parent_id sid parent_opt ''dropdown''
                                   (name_slug label) label 1 disp]
      in case find_elements group_el [cls ''product-option-cluster-select'', tg ''select''] of
           [] \<Rightarrow> (option_id_start + 1, disp + 1, Some parent_id, rows_out)
         | sel # _ \<Rightarrow>
             (case foldl (select_child_step now label sid parent_id)
                     (option_id_start + 1, disp + 1, rows_out) (select_options sel) of
                (oid, disp, rows_out) \<Rightarrow>
                  (oid, disp, Some parent_id, rows_out)))"

definition parse_group_to_rows_fixed ::
  "string \<Rightarrow> element \<Rightarrow> string \<Rightarrow> string \<Rightarrow> int option \<Rightarrow> int \<Rightarrow> int \<Rightarrow> int \<Rightarrow> option_row list
     \<Rightarrow> int \<times> int \<times> int option \<times> option_row list" where
  "parse_group_to_rows_fixed now group_el kind label parent_opt sid option_id_start disp rows_out =
     (if kind = ''slider'' \<or> kind = ''range''
      then write_slider_or_range now group_el kind label parent_opt sid option_id_start disp rows_out
      else if kind = ''radio''
      then write_radios now group_el label parent_opt sid option_id_start disp rows_out
      else if kind = ''buttons''
      then write_buttons_as_radio now group_el label parent_opt sid option_id_start disp rows_out
      else if kind = ''checkbox''
      then write_checkboxes now group_el label parent_opt sid option_id_start disp rows_out
      else if kind = ''select''
      then write_select now group_el label parent_opt sid option_id_start disp rows_out
      else (option_id_start, disp, None, rows_out))"

section \<open>Snapshot extraction\<close>

text \<open>
  The browser is a parameter: \<open>container_of\<close> gives the options container as a page state
  shows it (\<open>None\<close> when it is absent or no longer attached), \<open>click_radio\<close> locates
  the radio input of a value in the trigger group and clicks it, and returns whether that
  succeeded together with the page state once the waits are over. Each scan reads one page
  state. \<open>clock k\<close> is the reading of \<open>datetime.now()\<close> at the \<open>k\<close>-th call of the
  group parser.
\<close>

record 's browser =
  container_of :: "'s \<Rightarrow> element option"
  click_radio :: "'s \<Rightarrow> element \<Rightarrow> string \<Rightarrow> bool \<times> 's"

datatype exn = StaleElementReference

record scan =
  next_option_id :: int
  next_display_order :: int
  batch :: "option_row list"
  baseline_sigs :: "string \<times> string \<Rightarrow> string option"
  clock_reads :: nat

definition get_next_option_id_from_options_csv :: "string list \<Rightarrow> int" where
  \<comment> \<open>the argument is the column \<open>option_id\<close> of the options file\<close>
  "get_next_option_id_from_options_csv ids =
     foldl (\<lambda>mx c. case py_int c of None \<Rightarrow> mx | Some i \<Rightarrow> max mx i) 0 ids + 1"

definition scan_groups :: "element \<Rightarrow> element list" where
  \<comment> \<open>the first \<open>.product-option\<close> of every visible \<open>.option-group\<close> that has one\<close>
  "scan_groups container =
     some_items (\<lambda>g. if \<not> is_visible g then None
                      else case find_elements g [cls ''product-option''] of
                             [] \<Rightarrow> None
                           | inner # _ \<Rightarrow> Some inner)
       (find_elements container [cls ''option-group''])"

definition is_trigger :: "string \<Rightarrow> string \<Rightarrow> bool" where
  \<comment> \<open>\<open>kind == "radio" and label.strip().lower() == "difficulty"\<close>\<close>
  "is_trigger kind label = (kind = ''radio'' \<and> lower (strip label) = ''difficulty'')"

definition write_group :: "(nat \<Rightarrow> string) \<Rightarrow> int \<Rightarrow> int option \<Rightarrow> scan \<Rightarrow> element \<Rightarrow> string \<Rightarrow> string \<Rightarrow> scan" where
  \<comment> \<open>one call of \<open>parse_group_to_rows_fixed\<close> on the running ids and rows\<close>
  "write_group clock sid parent_opt st group_el kind label =
     (case parse_group_to_rows_fixed (clock (clock_reads st)) group_el kind label parent_opt sid
             (next_option_id st) (next_display_order st) (batch st) of
        (oid, disp, _, rows) \<Rightarrow>
          st\<lparr>next_option_id := oid, next_display_order := disp, batch := rows,
             clock_reads := Suc (clock_reads st)\<rparr>)"

definition radio_value_parent_row_ids :: "int \<Rightarrow> option_row list \<Rightarrow> string \<Rightarrow> int option" where
  \<comment> \<open>the dict from \<open>str(option_value)\<close> to the row id, over the radio rows of the
      service whose name starts with \<open>difficulty_\<close>; a later row replaces an earlier one\<close>
  "radio_value_parent_row_ids sid rows =
     foldl (\<lambda>m r. if option_type r = Some ''radio'' \<and> service_id r = sid
                         \<and> startswith (option_name r) ''difficulty_''
                    then m(opt_str (option_value r) \<mapsto> option_id r) else m)
       Map.empty rows"

definition rescan_step :: "(string \<Rightarrow> string) \<Rightarrow> (nat \<Rightarrow> string) \<Rightarrow> int \<Rightarrow> int \<Rightarrow> scan \<Rightarrow> element \<Rightarrow> scan" where
  \<comment> \<open>the body of the loop over the groups seen after a click\<close>
  "rescan_step h clock sid parent_radio_row_id st inner =
     (case group_kind_and_signature h inner of
        (kind, label, sig) \<Rightarrow>
          if is_trigger kind label then st
          else if (case baseline_sigs st (kind, label) of
                     None \<Rightarrow> False
                   | Some baseline_sig \<Rightarrow> baseline_sig \<noteq> [] \<and> baseline_sig = sig)
          then st
          else write_group clock sid (Some parent_radio_row_id)
                 (st\<lparr>baseline_sigs := (baseline_sigs st)((kind, label) \<mapsto> sig)\<rparr>)
                 inner kind label)"

fun snapshot_loop ::
  "'s browser \<Rightarrow> (string \<Rightarrow> string) \<Rightarrow> (nat \<Rightarrow> string) \<Rightarrow> int \<Rightarrow> element \<Rightarrow> (string \<Rightarrow> int option)
     \<Rightarrow> string list \<Rightarrow> 's \<Rightarrow> scan \<Rightarrow> exn + scan" where
  \<comment> \<open>the loop over the values of the trigger; a stale container raises\<close>
  "snapshot_loop br h clock sid difficulty_group_el ids [] s st = Inr st"
| "snapshot_loop br h clock sid difficulty_group_el ids (val # vals) s st =
     (case ids val of
        None \<Rightarrow> snapshot_loop br h clock sid difficulty_group_el ids vals s st
      | Some parent_radio_row_id \<Rightarrow>
          if parent_radio_row_id = 0
          then snapshot_loop br h clock sid difficulty_group_el ids vals s st
          else (case container_of br s of
                  None \<Rightarrow> Inl StaleElementReference
                | Some _ \<Rightarrow>
                    (case click_radio br s difficulty_group_el val of
                       (ok, s') \<Rightarrow>
                         if \<not> ok then snapshot_loop br h clock sid difficulty_group_el ids vals s' st
                         else (case container_of br s' of
                                 None \<Rightarrow> Inl StaleElementReference
                               | Some container \<Rightarrow>
                                   snapshot_loop br h clock sid difficulty_group_el ids vals s'
                                     (foldl (rescan_step h clock sid parent_radio_row_id) st
                                        (scan_groups container))))))"

definition extract_options_with_snapshots_fixed ::
  "'s browser \<Rightarrow> (string \<Rightarrow> string) \<Rightarrow> (nat \<Rightarrow> string) \<Rightarrow> string list \<Rightarrow> 's \<Rightarrow> int
     \<Rightarrow> exn + option_row list" where
  "extract_options_with_snapshots_fixed br h clock csv_ids s0 sid =
     (case container_of br s0 of
        None \<Rightarrow> Inr []
      | Some container \<Rightarrow>
          let classified = map (\<lambda>g. (g, group_kind_and_signature h g)) (scan_groups container);
              sigs0 = foldl (\<lambda>m c. case c of (g, kind, label, sig) \<Rightarrow> m((kind, label) \<mapsto> sig))
                        Map.empty classified;
              st0 = \<lparr>next_option_id = get_next_option_id_from_options_csv csv_ids,
                     next_display_order = 1, batch = [], baseline_sigs = sigs0, clock_reads = 0\<rparr>;
              st1 = foldl (\<lambda>st c. case c of (g, kind, label, sig) \<Rightarrow> write_group clock sid None st g kind label)
                      st0 classified
          in case find (\<lambda>c. case c of (g, kind, label, sig) \<Rightarrow> is_trigger kind label) classified of
               None \<Rightarrow> Inr (batch st1)
             | Some (difficulty_group_el, _) \<Rightarrow>
                 let ids = radio_value_parent_row_ids sid (batch st1);
                     radio_values = filter (\<lambda>v. v \<noteq> [])
                        (map (\<lambda>inp. or_empty (get_attribute inp ''value''))
                           (find_elements difficulty_group_el
                              [cls ''product-option-cluster-radios'', cls ''radio-option'',
                               input_of_type ''radio'']))
                 in (case snapshot_loop br h clock sid difficulty_group_el ids radio_values s0 st1 of
                       Inl e \<Rightarrow> Inl e
                     | Inr st \<Rightarrow> Inr (batch st)))"

section \<open>The importer\<close>

subsection \<open>The files\<close>

text \<open>
  Both files are read with \<open>dtype=str\<close> and \<open>keep_default_na=False\<close>: every cell is a
  string. The services file may lack the column \<open>service_id\<close>; the other columns are
  checked before the import starts.
\<close>

record service_csv =
  c_service_id :: string
  c_game_id :: string
  c_name :: string
  c_description :: string
  c_price_per_unit :: string
  c_sale_price :: string
  c_icon_url :: string
  c_category :: string
  c_game_name :: string

record option_csv =
  o_option_id :: string
  o_service_id :: string
  o_parent_option_id :: string
  o_option_type :: string
  o_option_name :: string
  o_option_label :: string
  o_option_value :: string
  o_price_modifier :: string
  o_min_value :: string
  o_max_value :: string
  o_default_value :: string
  o_is_required :: string
  o_display_order :: string
  o_is_active :: string
  o_created_at :: string
  o_updated_at :: string

subsection \<open>Conversions\<close>

definition is_nullish :: "string \<Rightarrow> bool" where
  \<comment> \<open>on a cell, which is a string\<close>
  "is_nullish v = (strip v = [])"

definition to_nullable_decimal :: "string \<Rightarrow> pyfloat option" where
  "to_nullable_decimal s = (if is_nullish s then None else py_float s)"



definition to_nullable_str :: "string \<Rightarrow> string option" where
  "to_nullable_str v = (if is_nullish v then None else Some v)"




subsection \<open>The storage\<close>

text \<open>
  The tables hold the rows in the order of their insertion. A connection sees its own
  uncommitted rows in \<open>working\<close>; \<open>committed\<close> is what stays after a rollback and what
  everyone else sees. The sequences that assign ids are not rolled back. The server is a
  parameter: which statements it rejects (any storage error), and which names its collation
  takes for equal.
\<close>

definition FORCE_GAME_ID :: int where
  "FORCE_GAME_ID = 21"

definition REUSE_EXISTING_SERVICE_BY_NAME :: bool where
  "REUSE_EXISTING_SERVICE_BY_NAME = True"

record service_values =
  sv_game_id :: int
  sv_name :: "string option"
  sv_description :: "string option"
  sv_price_per_unit :: "pyfloat option"
  sv_sale_price :: "pyfloat option"
  sv_icon_url :: "string option"
  sv_category :: "string option"

record option_values =
  op_service_id :: int
  op_parent_option_id :: "int option"
  op_option_type :: "string option"
  op_option_name :: "string option"
  op_option_label :: "string option"
  op_option_value :: "string option"
  op_price_modifier :: "pyfloat option"
  op_min_value :: "int option"
  op_max_value :: "int option"
  op_default_value :: "string option"
  op_is_required :: "int option"
  op_display_order :: "int option"
  op_is_active :: "int option"
  op_created_at :: "string option"
  op_updated_at :: "string option"

record tables =
  services :: "(int \<times> service_values) list"
  service_options :: "(int \<times> option_values) list"

datatype statement =
  SelectService int string
| InsertService service_values
| InsertOption option_values

record server =
  rejects :: "tables \<Rightarrow> statement \<Rightarrow> bool"
  same_name :: "string \<Rightarrow> string \<Rightarrow> bool"

datatype diagnostic =
  MissingParent string string
| Imported string int nat
| Rollback
| NoServices
| Complete nat nat

datatype import_error = StorageError | MultipleServicesNoId | CastError

record session =
  committed :: tables
  working :: tables
  service_seq :: int
  option_seq :: int
  imported_services :: nat
  imported_options :: nat
  diagnostics :: "diagnostic list"




definition select_service :: "server \<Rightarrow> session \<Rightarrow> int \<Rightarrow> string \<Rightarrow> import_error + int option" where
  \<comment> \<open>\<open>SELECT_SERVICE_SQL\<close> with \<open>fetchone\<close>: the id of the first service of the game with
      that name\<close>
  "select_service srv st g n =
     (if rejects srv (working st) (SelectService g n) then Inl StorageError
      else Inr (map_option fst
             (find (\<lambda>r. sv_game_id (snd r) = g
                         \<and> (case sv_name (snd r) of None \<Rightarrow> False | Some m \<Rightarrow> same_name srv m n))
                (services (working st)))))"

definition execute_insert_service :: "server \<Rightarrow> session \<Rightarrow> service_values \<Rightarrow> import_error + int \<times> session" where
  \<comment> \<open>\<open>INSERT_SERVICE_SQL\<close>; the result carries \<open>cur.lastrowid\<close>\<close>
  "execute_insert_service srv st v =
     (if rejects srv (working st) (InsertService v) then Inl StorageError
      else let new_id = service_seq st + 1
           in Inr (new_id,
                   st\<lparr>working := (working st)\<lparr>services := services (working st) @ [(new_id, v)]\<rparr>,
                      service_seq := new_id\<rparr>))"


subsection \<open>Inserting a service and its options\<close>

definition insert_service :: "server \<Rightarrow> session \<Rightarrow> service_csv \<Rightarrow> import_error + int \<times> session" where
  "insert_service srv st row =
     (let game_id = FORCE_GAME_ID;
          name = to_nullable_str (c_name row);
          description = to_nullable_str (c_description row);
          price_per_unit = to_nullable_decimal (c_price_per_unit row);
          sale_price = to_nullable_decimal (c_sale_price row);
          icon_url = to_nullable_str (c_icon_url row);
          category = to_nullable_str (c_category row);
          insert = execute_insert_service srv st
                     \<lparr>sv_game_id = game_id, sv_name = name, sv_description = description,
                      sv_price_per_unit = price_per_unit, sv_sale_price = sale_price,
                      sv_icon_url = icon_url, sv_category = category\<rparr>
      in case name of
           None \<Rightarrow> insert
         | Some n \<Rightarrow>
             if REUSE_EXISTING_SERVICE_BY_NAME \<and> n \<noteq> []
             then (case select_service srv st game_id n of
                     Inl e \<Rightarrow> Inl e
                   | Inr (Some existing) \<Rightarrow> Inr (existing, st)
                   | Inr None \<Rightarrow> insert)
             else insert)"



text \<open>
  The loops over the parents and over the children thread the session and the map from the
  ids of the file to the ids of the storage; an exception leaves with the session as it is
  at that point.
\<close>

type_synonym id_map = "string \<Rightarrow> int option"


definition resolve_parent :: "id_map \<Rightarrow> option_csv \<Rightarrow> int option" where
  \<comment> \<open>\<open>id_map.get(csv_parent)\<close>, and \<open>None\<close> where that is not truthy\<close>
  "resolve_parent idm crow =
     (case idm (strip (o_parent_option_id crow)) of
        None \<Rightarrow> None
      | Some parent_db_id \<Rightarrow> if parent_db_id = 0 then None else Some parent_db_id)"

definition warn_missing :: "id_map \<Rightarrow> option_csv \<Rightarrow> session \<Rightarrow> session" where
  \<comment> \<open>the \<open>[WARN] Missing parent\<close> line, printed when the parent is not resolved\<close>
  "warn_missing idm crow st =
     (if resolve_parent idm crow = None
      then st\<lparr>diagnostics := diagnostics st
                @ [MissingParent (o_option_id crow) (strip (o_parent_option_id crow))]\<rparr>
      else st)"









record database =
  db_tables :: tables
  db_service_seq :: int
  db_option_seq :: int


definition close :: "session \<Rightarrow> database" where
  \<comment> \<open>closing the connection leaves what was committed\<close>
  "close st =
     \<lparr>db_tables = committed st, db_service_seq = service_seq st, db_option_seq = option_seq st\<rparr>"



section \<open>Auxiliary definitions and example inputs\<close>



definition persisted_types :: "string list" where
  \<comment> \<open>the vocabulary of \<open>option_type\<close> in storage\<close>
  "persisted_types = [''slider'', ''range'', ''radio'', ''checkbox'', ''dropdown'']"

definition type_ok :: "option_row \<Rightarrow> bool" where
  \<comment> \<open>the row's type is in the vocabulary once normalized\<close>
  "type_ok r = (normalize_type (option_type r) \<in> set persisted_types)"

definition head_ok :: "int option \<Rightarrow> int \<Rightarrow> option_row \<Rightarrow> bool" where
  \<comment> \<open>a group row: it has the id and the parent it was given, and no value\<close>
  "head_ok parent_opt oid r =
     (option_id r = oid \<and> parent_option_id r = parent_opt \<and> option_value r = None \<and> type_ok r)"

definition child_ok :: "int \<Rightarrow> option_row \<Rightarrow> bool" where
  \<comment> \<open>a choice or value row under the group row \<open>pid\<close>\<close>
  "child_ok pid r = (parent_option_id r = Some pid \<and> option_value r \<noteq> None \<and> type_ok r)"

definition written :: "int option \<Rightarrow> int \<Rightarrow> option_row list \<Rightarrow> option_row list \<Rightarrow> bool" where
  \<comment> \<open>what one call of the group parser may do to the rows: nothing, or append one group
      row followed by its children\<close>
  "written parent_opt oid rows rows' =
     (rows' = rows \<or>
      (\<exists>hd_row kids. rows' = rows @ hd_row # kids \<and> head_ok parent_opt oid hd_row
                        \<and> list_all (child_ok oid) kids))"

fun tree_ok :: "int list \<Rightarrow> option_row list \<Rightarrow> bool" where
  \<comment> \<open>every parent reference names a row seen earlier (\<open>seen\<close> holds the ids so far), and a
      row without a parent is a group row\<close>
  "tree_ok seen [] = True"
| "tree_ok seen (r # rs) =
     ((case parent_option_id r of None \<Rightarrow> option_value r = None | Some p \<Rightarrow> p \<in> set seen)
      \<and> tree_ok (option_id r # seen) rs)"

definition kids_added :: "int \<Rightarrow> cursor \<Rightarrow> cursor \<Rightarrow> bool" where
  \<comment> \<open>a writer's loop only appends children of the group row \<open>pid\<close>\<close>
  "kids_added pid c c' = (\<exists>kids. snd (snd c') = snd (snd c) @ kids \<and> list_all (child_ok pid) kids)"


definition batch_ok :: "option_row list \<Rightarrow> bool" where
  \<comment> \<open>the invariant of the extraction loop on the rows written so far\<close>
  "batch_ok rows = (list_all type_ok rows \<and> tree_ok [] rows)"

definition row_ids :: "option_row list \<Rightarrow> int set" where
  "row_ids rows = option_id ` set rows"

subsection \<open>An example page\<close>

text \<open>
  The radio group Difficulty with the single choice Hard; once Hard is selected the page
  also shows the dropdown Region. The page state says whether the click has happened.
\<close>

definition vis :: "string \<Rightarrow> string list \<Rightarrow> (string \<times> string) list \<Rightarrow> string \<Rightarrow> node list \<Rightarrow> node" where
  \<comment> \<open>a visible node\<close>
  "vis t cs avs tx ch = Node t cs avs True tx [] ch"

definition small_region_option :: node where
  "small_region_option =
     vis ''div'' [''product-option''] [] []
       [vis ''div'' [''product-option__label''] [] ''Region'' [],
        vis ''div'' [''product-option-cluster-select''] [] []
          [vis ''select'' [] [] []
             [vis ''option'' [] [(''value'', ''eu''), (''selected'', ''true'')] ''Europe'' []]]]"

definition small_difficulty_option :: node where
  "small_difficulty_option =
     vis ''div'' [''product-option''] [] []
       [vis ''div'' [''product-option__label''] [] ''Difficulty'' [],
        vis ''div'' [''product-option-cluster-radios''] [] []
          [vis ''label'' [''radio-option''] [] ''Hard''
             [vis ''input'' [] [(''type'', ''radio''), (''value'', ''hard'')] [] [],
              vis ''span'' [''radio-check__label''] [] ''Hard'' []]]]"

definition small_container :: "bool \<Rightarrow> element" where
  "small_container clicked =
     ([], vis ''div'' [''product-detail-calculator__options''] [] []
            (vis ''div'' [''option-group''] [] [] [small_difficulty_option]
             # (if clicked then [vis ''div'' [''option-group''] [] [] [small_region_option]] else [])))"

definition in_group :: "node \<Rightarrow> element" where
  \<comment> \<open>a \<open>.product-option\<close> as the scan of the example page finds it\<close>
  "in_group n =
     ([Facet ''div'' [''option-group''] [], Facet ''div'' [''product-detail-calculator__options''] []], n)"

definition small_browser :: "bool browser" where
  "small_browser =
     \<lparr>container_of = (\<lambda>s. Some (small_container s)), click_radio = (\<lambda>s g v. (True, True))\<rparr>"

definition small_clock :: "nat \<Rightarrow> string" where
  "small_clock k = ''2025-01-01 00:00:00''"

definition small_rows :: "exn + option_row list" where
  \<comment> \<open>the extraction of the example page, with the identity for the digest\<close>
  "small_rows = extract_options_with_snapshots_fixed small_browser (\<lambda>s. s) small_clock [] False 1"

definition small_baseline :: "option_row list" where
  \<comment> \<open>the rows of the baseline scan: the radio group and its choice\<close>
  "small_baseline =
     [\<lparr>option_id = 1, service_id = 1, parent_option_id = None,
       option_type = Some ''radio'', option_name = ''difficulty'',
       option_label = ''Difficulty'', option_value = None,
       price_modifier = Finite False 0, min_value = None,
       max_value = None, default_value = None, is_required = 1,
       display_order = 1, is_active = 1,
       created_at = ''2025-01-01 00:00:00'',
       updated_at = ''2025-01-01 00:00:00''\<rparr>,
      \<lparr>option_id = 2, service_id = 1, parent_option_id = Some 1,
       option_type = Some ''radio'', option_name = ''difficulty_hard'',
       option_label = ''Hard'', option_value = Some ''hard'',
       price_modifier = Finite False 0, min_value = None,
       max_value = None, default_value = None, is_required = 0,
       display_order = 2, is_active = 1,
       created_at = ''2025-01-01 00:00:00'',
       updated_at = ''2025-01-01 00:00:00''\<rparr>]"

definition small_revealed :: "option_row list" where
  \<comment> \<open>the rows of the dropdown that the choice Hard (row 2) reveals\<close>
  "small_revealed =
     [\<lparr>option_id = 3, service_id = 1, parent_option_id = Some 2,
       option_type = Some ''dropdown'', option_name = ''region'',
       option_label = ''Region'', option_value = None,
       price_modifier = Finite False 0, min_value = None,
       max_value = None, default_value = None, is_required = 1,
       display_order = 3, is_active = 1,
       created_at = ''2025-01-01 00:00:00'',
       updated_at = ''2025-01-01 00:00:00''\<rparr>,
      \<lparr>option_id = 4, service_id = 1, parent_option_id = Some 3,
       option_type = Some ''dropdown'', option_name = ''region_eu'',
       option_label = ''Europe'', option_value = Some ''eu'',
       price_modifier = Finite False 0, min_value = None,
       max_value = None, default_value = Some ''eu'', is_required = 0,
       display_order = 4, is_active = 1,
       created_at = ''2025-01-01 00:00:00'',
       updated_at = ''2025-01-01 00:00:00''\<rparr>]"

definition small_batch :: "option_row list" where
  "small_batch = small_baseline @ small_revealed"


subsection \<open>What the importer leaves in the storage\<close>



subsection \<open>An example import\<close>









subsection \<open>Choices and what changes in them\<close>

definition one_field_changed :: "string \<times> string \<times> string \<Rightarrow> string \<times> string \<times> string \<Rightarrow> bool" where
  \<comment> \<open>two choices that differ in their label only, in their value only, or in their price
      text only\<close>
  "one_field_changed x y =
     (case x of (l, v, p) \<Rightarrow> case y of (l', v', p') \<Rightarrow>
        (l \<noteq> l' \<and> v = v' \<and> p = p') \<or> (l = l' \<and> v \<noteq> v' \<and> p = p') \<or> (l = l' \<and> v = v' \<and> p \<noteq> p'))"

definition euro :: string where
  \<comment> \<open>the euro sign, as its bytes in UTF-8\<close>
  "euro = [CHR 0xE2, CHR 0x82, CHR 0xAC]"

definition hidden_range_group :: element where
  \<comment> \<open>a group that is not visible and holds a range cluster with two knobs\<close>
  "hidden_range_group =
     ([], Node ''div'' [''product-option''] [] False [] []
            [vis ''div'' [''product-option-cluster-range''] [] []
               [vis ''div'' [''range__body''] [] []
                  [vis ''div'' [''range__knob''] [] [] [], vis ''div'' [''range__knob''] [] [] []]]])"

definition shown_range_group :: "bool \<Rightarrow> element" where
  \<comment> \<open>a visible group with a range cluster: one knob, and two inputs of which the second is a
      number input or not\<close>
  "shown_range_group numeric =
     ([], vis ''div'' [''product-option''] [] []
            [vis ''div'' [''product-option-cluster-range''] [] []
               [vis ''div'' [''range__body''] [] [] [vis ''div'' [''range__knob''] [] [] []],
                vis ''div'' [''input-container''] [] []
                  [vis ''input'' [] [(''type'', ''number''), (''value'', ''1'')] [] [],
                   vis ''input'' [] [(''type'', if numeric then ''number'' else ''text''), (''value'', ''9'')] [] []]]])"

definition button_group :: "string \<Rightarrow> element" where
  \<comment> \<open>a buttons group with one button labelled Gold that shows the given price text\<close>
  "button_group price =
     ([], vis ''div'' [''product-option''] [] []
            [vis ''div'' [''product-option__label''] [] ''Tier'' [],
             vis ''div'' [''product-option-cluster-buttons''] [] []
               [vis ''div'' [''buttons-group''] [] []
                  [vis ''button'' [] [] (''Gold '' @ price)
                     [vis ''span'' [''button-option__label''] [] ''Gold'' [],
                      vis ''span'' [''button-option__price''] [] price []]]]])"

definition radio_cluster :: "string \<Rightarrow> element" where
  \<comment> \<open>a radio cluster with the one choice Hard that shows the given price text\<close>
  "radio_cluster price =
     ([], vis ''div'' [''product-option-cluster-radios''] [] []
            [vis ''label'' [''radio-option''] [] ''Hard''
               [vis ''input'' [] [(''type'', ''radio''), (''value'', ''hard'')] [] [],
                vis ''span'' [''radio-check__label''] [] ''Hard'' [],
                vis ''span'' [''radio-option__price''] [] price []]])"

definition checkbox_cluster :: "string \<Rightarrow> element" where
  \<comment> \<open>a checkbox cluster with the one choice Stream that has the given value\<close>
  "checkbox_cluster v =
     ([], vis ''div'' [''product-option-cluster-checkboxes''] [] []
            [vis ''label'' [''checkbox-option''] [] ''Stream''
               [vis ''input'' [] [(''type'', ''checkbox''), (''value'', v)] [] [],
                vis ''span'' [''radio-check__label''] [] ''Stream'' []]])"

definition button_cluster :: "string \<Rightarrow> element" where
  \<comment> \<open>a button cluster with one button of the given label\<close>
  "button_cluster l =
     ([], vis ''div'' [''product-option-cluster-buttons''] [] []
            [vis ''button'' [] [] l [vis ''span'' [''button-option__label''] [] l []]])"

definition checkbox_group :: element where
  \<comment> \<open>a group with the head label Extras and the checkbox cluster of the choice Stream\<close>
  "checkbox_group =
     ([], vis ''div'' [''product-option''] [] []
            [vis ''div'' [''product-option__label''] [] ''Extras'' [],
             snd (checkbox_cluster ''stream'')])"

definition group_label :: "element \<Rightarrow> string" where
  \<comment> \<open>the label of a group as \<open>complete_code.py\<close> reads it\<close>
  "group_label g =
     (case find_elements g [cls ''product-option__label''] of
        [] \<Rightarrow> ''Option''
      | l # _ \<Rightarrow> get_clean_text_el l)"

definition group_slug :: "element \<Rightarrow> string" where
  \<comment> \<open>the label in lower case without colons, as it enters the canonical string\<close>
  "group_slug g = strip (replace_chr CHR '':'' [] (lower (group_label g)))"
section \<open>Properties of the normalizer\<close>














section \<open>What the writers append\<close>

lemma type_ok_simps:
  "normalize_type (Some ''slider'') = ''slider''"
  "normalize_type (Some ''range'') = ''range''"
  "normalize_type (Some ''radio'') = ''radio''"
  "normalize_type (Some ''checkbox'') = ''checkbox''"
  "normalize_type (Some ''dropdown'') = ''dropdown''"
  "normalize_type (Some ''slider_value'') = ''slider''"
  "normalize_type (Some ''range_value'') = ''range''"
  by (simp_all add: normalize_type_def or_empty_def strip_def lstrip_def rstrip_def is_space_def endswith_def)

lemma kids_added_refl: "kids_added pid c c"
  by (simp add: kids_added_def)

lemma kids_added_trans: "kids_added pid a b \<Longrightarrow> kids_added pid b c \<Longrightarrow> kids_added pid a c"
  by (auto simp: kids_added_def)

lemma kids_added_foldl:
  assumes "\<And>c x. kids_added pid c (f c x)"
  shows "kids_added pid c (foldl f c xs)"
proof (induction xs arbitrary: c)
  case Nil
  show ?case by (simp add: kids_added_refl)
next
  case (Cons x xs)
  have "kids_added pid c (f c x)" by (rule assms)
  moreover have "kids_added pid (f c x) (foldl f (f c x) xs)" by (rule Cons.IH)
  ultimately show ?case by (simp add: kids_added_trans[of pid c "f c x"])
qed

lemma slider_child_step_kids:
  "kind = ''slider'' \<or> kind = ''range'' \<Longrightarrow>
   kids_added pid c (slider_child_step now kind sid pid pname n bounds dvs c il)"
  by (cases c; cases il) (auto simp: kids_added_def slider_child_step_def Let_def child_ok_def type_ok_def
      persisted_types_def type_ok_simps)

lemma button_child_step_kids: "kids_added pid c (button_child_step now label sid pid c btn)"
  by (cases c) (auto simp: kids_added_def button_child_step_def Let_def child_ok_def type_ok_def
      persisted_types_def type_ok_simps split: list.splits)

lemma radio_child_step_kids: "kids_added pid c (radio_child_step now label sid pid c ro)"
  by (cases c) (auto simp: kids_added_def radio_child_step_def Let_def child_ok_def type_ok_def
      persisted_types_def type_ok_simps split: list.splits)

lemma checkbox_child_step_kids: "kids_added pid c (checkbox_child_step now label sid pid c co)"
  by (cases c) (auto simp: kids_added_def checkbox_child_step_def Let_def child_ok_def type_ok_def
      persisted_types_def type_ok_simps split: list.splits)

lemma select_child_step_kids: "kids_added pid c (select_child_step now label sid pid c opt)"
  by (cases c) (auto simp: kids_added_def select_child_step_def Let_def child_ok_def type_ok_def
      persisted_types_def type_ok_simps split: list.splits)

lemma parent_row_head_ok:
  "t \<in> set persisted_types \<Longrightarrow> head_ok parent_opt oid (parent_row now oid sid parent_opt t name label req disp)"
  by (auto simp: head_ok_def parent_row_def type_ok_def persisted_types_def type_ok_simps)

lemma written_from_kids:
  assumes "head_ok parent_opt oid hd_row"
    and "kids_added oid (a, b, rows @ [hd_row]) (a', b', rows')"
  shows "written parent_opt oid rows rows'"
  using assms by (auto simp: written_def kids_added_def)

lemma write_slider_or_range_written:
  assumes "kind = ''slider'' \<or> kind = ''range''"
    and "write_slider_or_range now g kind label parent_opt sid oid disp rows = (oid', disp', p, rows')"
  shows "written parent_opt oid rows rows' \<and> p = Some oid"
proof -
  let ?ls = "extract_slider_labels g"
  obtain pname plabel where
    fold: "foldl (slider_child_step now kind sid oid pname (length ?ls) (scale_bounds g)
              (filter (\<lambda>v. v \<noteq> []) (map (\<lambda>inp. or_empty (get_attribute inp ''value''))
                 (find_elements g [cls ''product-option-cluster-range'', cls ''input-container'', tg ''input'']))))
            (oid + 1, disp + 1, rows @ [parent_row now oid sid parent_opt kind pname plabel 1 disp])
            (zip [0 ..< length ?ls] ?ls) = (oid', disp', rows')" and p: "p = Some oid"
    using assms(2) unfolding write_slider_or_range_def Let_def
    by (auto split: prod.splits)
  have h: "head_ok parent_opt oid (parent_row now oid sid parent_opt kind pname plabel 1 disp)"
    using assms(1) by (auto intro: parent_row_head_ok simp: persisted_types_def)
  have "kids_added oid (oid + 1, disp + 1, rows @ [parent_row now oid sid parent_opt kind pname plabel 1 disp])
          (oid', disp', rows')"
    unfolding fold[symmetric]
    by (rule kids_added_foldl) (rule slider_child_step_kids[OF assms(1)])
  with h p show ?thesis by (auto intro: written_from_kids)
qed

lemma write_radios_written:
  assumes "write_radios now g label parent_opt sid oid disp rows = (oid', disp', p, rows')"
  shows "written parent_opt oid rows rows' \<and> p = Some oid"
proof -
  have fold: "foldl (radio_child_step now label sid oid)
            (oid + 1, disp + 1, rows @ [parent_row now oid sid parent_opt ''radio'' (name_slug label) label 1 disp])
            (find_elements g [cls ''product-option-cluster-radios'', cls ''radio-option'']) = (oid', disp', rows')"
    and p: "p = Some oid"
    using assms unfolding write_radios_def Let_def by (auto split: prod.splits)
  have h: "head_ok parent_opt oid (parent_row now oid sid parent_opt ''radio'' (name_slug label) label 1 disp)"
    by (auto intro: parent_row_head_ok simp: persisted_types_def)
  have "kids_added oid (oid + 1, disp + 1, rows @ [parent_row now oid sid parent_opt ''radio'' (name_slug label) label 1 disp])
          (oid', disp', rows')"
    unfolding fold[symmetric] by (rule kids_added_foldl) (rule radio_child_step_kids)
  with h p show ?thesis by (auto intro: written_from_kids)
qed

lemma write_checkboxes_written:
  assumes "write_checkboxes now g label parent_opt sid oid disp rows = (oid', disp', p, rows')"
  shows "written parent_opt oid rows rows' \<and> p = Some oid"
proof -
  have fold: "foldl (checkbox_child_step now label sid oid)
            (oid + 1, disp + 1, rows @ [parent_row now oid sid parent_opt ''checkbox'' (name_slug label) label 0 disp])
            (find_elements g [cls ''product-option-cluster-checkboxes'', cls ''checkbox-option'']) = (oid', disp', rows')"
    and p: "p = Some oid"
    using assms unfolding write_checkboxes_def Let_def by (auto split: prod.splits)
  have h: "head_ok parent_opt oid (parent_row now oid sid parent_opt ''checkbox'' (name_slug label) label 0 disp)"
    by (auto intro: parent_row_head_ok simp: persisted_types_def)
  have "kids_added oid (oid + 1, disp + 1, rows @ [parent_row now oid sid parent_opt ''checkbox'' (name_slug label) label 0 disp])
          (oid', disp', rows')"
    unfolding fold[symmetric] by (rule kids_added_foldl) (rule checkbox_child_step_kids)
  with h p show ?thesis by (auto intro: written_from_kids)
qed

lemma buttons_inner_kids:
  "kids_added pid c (foldl (button_child_step now label sid pid) c xs)"
  by (rule kids_added_foldl) (rule button_child_step_kids)

lemma write_buttons_as_radio_written:
  assumes "write_buttons_as_radio now g label parent_opt sid oid disp rows = (oid', disp', p, rows')"
  shows "written parent_opt oid rows rows' \<and> p = Some oid"
proof -
  have fold: "foldl (\<lambda>cur bg. foldl (button_child_step now label sid oid) cur (find_elements bg [tg ''button'']))
            (oid + 1, disp + 1, rows @ [parent_row now oid sid parent_opt ''radio'' (name_slug label) label 1 disp])
            (find_elements g [cls ''product-option-cluster-buttons'', cls ''buttons-group'']) = (oid', disp', rows')"
    and p: "p = Some oid"
    using assms unfolding write_buttons_as_radio_def Let_def by (auto split: prod.splits)
  have h: "head_ok parent_opt oid (parent_row now oid sid parent_opt ''radio'' (name_slug label) label 1 disp)"
    by (auto intro: parent_row_head_ok simp: persisted_types_def)
  have "kids_added oid (oid + 1, disp + 1, rows @ [parent_row now oid sid parent_opt ''radio'' (name_slug label) label 1 disp])
          (oid', disp', rows')"
    unfolding fold[symmetric] by (rule kids_added_foldl) (rule buttons_inner_kids)
  with h p show ?thesis by (auto intro: written_from_kids)
qed

lemma write_select_written:
  assumes "write_select now g label parent_opt sid oid disp rows = (oid', disp', p, rows')"
  shows "written parent_opt oid rows rows' \<and> p = Some oid"
proof (cases "find_elements g [cls ''product-option-cluster-select'', tg ''select'']")
  case Nil
  have h: "head_ok parent_opt oid (parent_row now oid sid parent_opt ''dropdown'' (name_slug label) label 1 disp)"
    by (auto intro: parent_row_head_ok simp: persisted_types_def)
  from Nil assms have "rows' = rows @ [parent_row now oid sid parent_opt ''dropdown'' (name_slug label) label 1 disp]"
    and "p = Some oid"
    unfolding write_select_def Let_def by auto
  with h show ?thesis by (auto simp: written_def)
next
  case (Cons sel rest)
  have fold: "foldl (select_child_step now label sid oid)
            (oid + 1, disp + 1, rows @ [parent_row now oid sid parent_opt ''dropdown'' (name_slug label) label 1 disp])
            (select_options sel) = (oid', disp', rows')"
    and p: "p = Some oid"
    using assms Cons unfolding write_select_def Let_def by (auto split: prod.splits)
  have h: "head_ok parent_opt oid (parent_row now oid sid parent_opt ''dropdown'' (name_slug label) label 1 disp)"
    by (auto intro: parent_row_head_ok simp: persisted_types_def)
  have "kids_added oid (oid + 1, disp + 1, rows @ [parent_row now oid sid parent_opt ''dropdown'' (name_slug label) label 1 disp])
          (oid', disp', rows')"
    unfolding fold[symmetric] by (rule kids_added_foldl) (rule select_child_step_kids)
  with h p show ?thesis by (auto intro: written_from_kids)
qed

lemma parse_group_to_rows_fixed_written:
  assumes "parse_group_to_rows_fixed now g kind label parent_opt sid oid disp rows = (oid', disp', p, rows')"
  shows "written parent_opt oid rows rows'"
  using assms write_slider_or_range_written write_radios_written write_checkboxes_written
    write_buttons_as_radio_written write_select_written
  unfolding parse_group_to_rows_fixed_def
  by (auto split: if_splits simp: written_def)

section \<open>The invariant of the extraction loop\<close>

lemma tree_ok_mono: "tree_ok seen rs \<Longrightarrow> set seen \<subseteq> set seen' \<Longrightarrow> tree_ok seen' rs"
proof (induction rs arbitrary: seen seen')
  case Nil
  show ?case by simp
next
  case (Cons r rs)
  from Cons.prems have a: "case parent_option_id r of None \<Rightarrow> option_value r = None | Some p \<Rightarrow> p \<in> set seen'"
    by (auto split: option.splits)
  from Cons.prems have b: "tree_ok (option_id r # seen) rs" by simp
  from Cons.prems(2) have c: "set (option_id r # seen) \<subseteq> set (option_id r # seen')" by auto
  have "tree_ok (option_id r # seen') rs"
    using b c by (rule Cons.IH)
  with a show ?case by simp
qed

lemma tree_ok_append:
  "tree_ok seen (xs @ ys) = (tree_ok seen xs \<and> tree_ok (rev (map option_id xs) @ seen) ys)"
  by (induction xs arbitrary: seen) auto

lemma tree_ok_kids: "list_all (child_ok pid) kids \<Longrightarrow> pid \<in> set seen \<Longrightarrow> tree_ok seen kids"
  by (induction kids arbitrary: seen) (auto simp: child_ok_def)

lemma written_batch_ok:
  assumes w: "written parent_opt oid rows rows'" and ok: "batch_ok rows"
    and par: "parent_opt = None \<or> (\<exists>p. parent_opt = Some p \<and> p \<in> row_ids rows)"
  shows "batch_ok rows'"
proof -
  from w consider "rows' = rows"
    | hd_row kids where "rows' = rows @ hd_row # kids" "head_ok parent_opt oid hd_row" "list_all (child_ok oid) kids"
    unfolding written_def by blast
  then show ?thesis
  proof cases
    case 1
    with ok show ?thesis by simp
  next
    case 2
    have t1: "list_all type_ok kids" using 2(3) by (induction kids) (auto simp: child_ok_def)
    have t: "list_all type_ok rows'" using ok 2(1,2) t1 by (simp add: batch_ok_def head_ok_def)
    have h: "case parent_option_id hd_row of None \<Rightarrow> option_value hd_row = None
             | Some p \<Rightarrow> p \<in> set (rev (map option_id rows))"
      using par 2(2) by (auto simp: head_ok_def row_ids_def)
    have k: "tree_ok (option_id hd_row # rev (map option_id rows)) kids"
      using 2(2,3) by (intro tree_ok_kids) (auto simp: head_ok_def)
    have "tree_ok (rev (map option_id rows) @ []) (hd_row # kids)"
      using h k by simp
    then have "tree_ok [] rows'"
      unfolding 2(1) tree_ok_append using ok by (simp add: batch_ok_def)
    with t show ?thesis by (simp add: batch_ok_def)
  qed
qed

lemma written_row_ids: "written parent_opt oid rows rows' \<Longrightarrow> row_ids rows \<subseteq> row_ids rows'"
  by (auto simp: written_def row_ids_def)

lemma write_group_written:
  "written parent_opt (next_option_id st) (batch st) (batch (write_group clock sid parent_opt st g kind label))"
proof -
  obtain oid disp p rows where e: "parse_group_to_rows_fixed (clock (clock_reads st)) g kind label parent_opt sid
             (next_option_id st) (next_display_order st) (batch st) = (oid, disp, p, rows)"
    by (cases "parse_group_to_rows_fixed (clock (clock_reads st)) g kind label parent_opt sid
             (next_option_id st) (next_display_order st) (batch st)") auto
  then have "batch (write_group clock sid parent_opt st g kind label) = rows"
    by (simp add: write_group_def)
  with parse_group_to_rows_fixed_written[OF e] show ?thesis by simp
qed

lemma baseline_fold_ok:
  "batch_ok (batch st) \<Longrightarrow>
   batch_ok (batch (foldl (\<lambda>st c. case c of (g, kind, label, sig) \<Rightarrow> write_group clock sid None st g kind label) st cs))"
proof (induction cs arbitrary: st)
  case Nil
  then show ?case by simp
next
  case (Cons c cs)
  obtain g kind label sig where c: "c = (g, kind, label, sig)" by (cases c) auto
  have "batch_ok (batch (write_group clock sid None st g kind label))"
    using write_group_written Cons.prems by (rule written_batch_ok) simp
  then show ?case using Cons.IH c by simp
qed

lemma rescan_step_ok:
  assumes "batch_ok (batch st)" "pid \<in> row_ids (batch st)"
  shows "batch_ok (batch (rescan_step h clock sid pid st inner))
         \<and> row_ids (batch st) \<subseteq> row_ids (batch (rescan_step h clock sid pid st inner))"
proof -
  obtain kind label sig where k: "group_kind_and_signature h inner = (kind, label, sig)"
    by (cases "group_kind_and_signature h inner") auto
  let ?st = "st\<lparr>baseline_sigs := (baseline_sigs st)((kind, label) \<mapsto> sig)\<rparr>"
  have w: "written (Some pid) (next_option_id ?st) (batch ?st) (batch (write_group clock sid (Some pid) ?st inner kind label))"
    by (rule write_group_written)
  have "batch_ok (batch (write_group clock sid (Some pid) ?st inner kind label))"
    using w by (rule written_batch_ok) (use assms in auto)
  moreover have "row_ids (batch st) \<subseteq> row_ids (batch (write_group clock sid (Some pid) ?st inner kind label))"
    using written_row_ids[OF w] by simp
  ultimately show ?thesis using assms k by (auto simp: rescan_step_def)
qed

lemma rescan_fold_ok:
  "batch_ok (batch st) \<Longrightarrow> pid \<in> row_ids (batch st) \<Longrightarrow>
   batch_ok (batch (foldl (rescan_step h clock sid pid) st gs))
   \<and> row_ids (batch st) \<subseteq> row_ids (batch (foldl (rescan_step h clock sid pid) st gs))"
proof (induction gs arbitrary: st)
  case Nil
  then show ?case by simp
next
  case (Cons g gs)
  from rescan_step_ok[OF Cons.prems, of h clock sid g]
  have a: "batch_ok (batch (rescan_step h clock sid pid st g))"
    and b: "row_ids (batch st) \<subseteq> row_ids (batch (rescan_step h clock sid pid st g))" by auto
  from b Cons.prems(2) have c: "pid \<in> row_ids (batch (rescan_step h clock sid pid st g))" by auto
  from Cons.IH[OF a c] b show ?case by auto
qed

lemma snapshot_loop_ok:
  assumes "snapshot_loop br h clock sid dg ids vals s st = Inr st'"
    and "batch_ok (batch st)"
    and "\<And>v pid. ids v = Some pid \<Longrightarrow> pid \<in> row_ids (batch st)"
  shows "batch_ok (batch st')"
  using assms
proof (induction vals arbitrary: s st)
  case Nil
  then show ?case by simp
next
  case (Cons v vals)
  show ?case
  proof (cases "ids v")
    case None
    with Cons.prems(1) have "snapshot_loop br h clock sid dg ids vals s st = Inr st'" by simp
    then show ?thesis using Cons.prems(2,3) by (rule Cons.IH)
  next
    case (Some pid)
    show ?thesis
    proof (cases "pid = 0")
      case True
      with Some Cons.prems(1) have "snapshot_loop br h clock sid dg ids vals s st = Inr st'" by simp
      then show ?thesis using Cons.prems(2,3) by (rule Cons.IH)
    next
      case False
      obtain ok s' where cl: "click_radio br s dg v = (ok, s')" by (cases "click_radio br s dg v") auto
      from Cons.prems(1) Some False obtain c0 where c0: "container_of br s = Some c0"
        by (cases "container_of br s") auto
      show ?thesis
      proof (cases ok)
        case False
        with Cons.prems(1) Some \<open>pid \<noteq> 0\<close> cl c0
        have "snapshot_loop br h clock sid dg ids vals s' st = Inr st'" by simp
        then show ?thesis using Cons.prems(2,3) by (rule Cons.IH)
      next
        case True
        from Cons.prems(1) Some \<open>pid \<noteq> 0\<close> cl c0 True obtain c where c: "container_of br s' = Some c"
          by (cases "container_of br s'") auto
        let ?st = "foldl (rescan_step h clock sid pid) st (scan_groups c)"
        from Cons.prems(1) Some \<open>pid \<noteq> 0\<close> cl c0 True c
        have l: "snapshot_loop br h clock sid dg ids vals s' ?st = Inr st'" by simp
        have p: "pid \<in> row_ids (batch st)" using Some by (rule Cons.prems(3))
        from rescan_fold_ok[OF Cons.prems(2) p, of h clock sid "scan_groups c"]
        have a: "batch_ok (batch ?st)" and b: "row_ids (batch st) \<subseteq> row_ids (batch ?st)" by auto
        show ?thesis using l a
        proof (rule Cons.IH)
          fix v' pid' assume "ids v' = Some pid'"
          then have "pid' \<in> row_ids (batch st)" by (rule Cons.prems(3))
          with b show "pid' \<in> row_ids (batch ?st)" by auto
        qed
      qed
    qed
  qed
qed

lemma radio_ids_fold:
  "foldl (\<lambda>m r. if option_type r = Some ''radio'' \<and> service_id r = sid
                         \<and> startswith (option_name r) ''difficulty_''
                    then m(opt_str (option_value r) \<mapsto> option_id r) else m) m0 rows v = Some pid
   \<Longrightarrow> m0 v = Some pid \<or>
       (\<exists>r \<in> set rows. option_id r = pid \<and> opt_str (option_value r) = v \<and> option_type r = Some ''radio''
                      \<and> service_id r = sid \<and> startswith (option_name r) ''difficulty_'')"
proof (induction rows arbitrary: m0)
  case Nil
  then show ?case by simp
next
  case (Cons r rows)
  from Cons.IH[OF Cons.prems[simplified]] show ?case
    by (auto split: if_splits)
qed

lemma radio_value_parent_row_ids_row:
  assumes "radio_value_parent_row_ids sid rows v = Some pid"
  shows "\<exists>r \<in> set rows. option_id r = pid \<and> opt_str (option_value r) = v \<and> option_type r = Some ''radio''
                      \<and> service_id r = sid \<and> startswith (option_name r) ''difficulty_''"
  using radio_ids_fold[OF assms[unfolded radio_value_parent_row_ids_def]] by simp

lemma extract_batch_ok:
  assumes "extract_options_with_snapshots_fixed br h clock csv_ids s0 sid = Inr rows"
  shows "batch_ok rows"
proof (cases "container_of br s0")
  case None
  with assms have "rows = []" by (simp add: extract_options_with_snapshots_fixed_def)
  then show ?thesis by (simp add: batch_ok_def)
next
  case (Some container)
  define classified where "classified = map (\<lambda>g. (g, group_kind_and_signature h g)) (scan_groups container)"
  define sigs0 where "sigs0 = foldl (\<lambda>m c. case c of (g, kind, label, sig) \<Rightarrow> m((kind, label) \<mapsto> sig))
                        Map.empty classified"
  define st0 where "st0 = \<lparr>next_option_id = get_next_option_id_from_options_csv csv_ids,
                     next_display_order = 1, batch = [], baseline_sigs = sigs0, clock_reads = 0\<rparr>"
  define st1 where "st1 = foldl (\<lambda>st c. case c of (g, kind, label, sig) \<Rightarrow> write_group clock sid None st g kind label)
                      st0 classified"
  have ok1: "batch_ok (batch st1)"
    unfolding st1_def by (rule baseline_fold_ok) (simp add: st0_def batch_ok_def)
  show ?thesis
  proof (cases "find (\<lambda>c. case c of (g, kind, label, sig) \<Rightarrow> is_trigger kind label) classified")
    case None
    with assms Some have "rows = batch st1"
      unfolding extract_options_with_snapshots_fixed_def Let_def classified_def sigs0_def st0_def st1_def
      by simp
    with ok1 show ?thesis by simp
  next
    case (Some trig)
    obtain dg rest where trig: "trig = (dg, rest)" by (cases trig) auto
    define ids where "ids = radio_value_parent_row_ids sid (batch st1)"
    define radio_values where "radio_values = filter (\<lambda>v. v \<noteq> [])
                        (map (\<lambda>inp. or_empty (get_attribute inp ''value''))
                           (find_elements dg
                              [cls ''product-option-cluster-radios'', cls ''radio-option'',
                               input_of_type ''radio'']))"
    from assms \<open>container_of br s0 = Some container\<close> Some trig
    obtain st where l: "snapshot_loop br h clock sid dg ids radio_values s0 st1 = Inr st" and r: "rows = batch st"
      unfolding extract_options_with_snapshots_fixed_def Let_def classified_def sigs0_def st0_def st1_def
        ids_def radio_values_def
      by (auto split: sum.splits)
    have "batch_ok (batch st)" using l ok1
    proof (rule snapshot_loop_ok)
      fix v pid assume "ids v = Some pid"
      then show "pid \<in> row_ids (batch st1)"
        using radio_value_parent_row_ids_row[of sid "batch st1" v pid] by (auto simp: ids_def row_ids_def)
    qed
    with r show ?thesis by simp
  qed
qed

section \<open>The example page, evaluated\<close>

lemmas dom_eval = find_elements_def matches_def cls_def tg_def input_of_type_def vis_def
  is_visible_def get_attribute_def get_clean_text_el_def some_items_def facet_of_def

lemmas str_eval = clean_text_def strip_def lstrip_def rstrip_def is_space_def lower_def
  lower_char_def replace_chr_def startswith_def or_empty_def opt_str_def

lemma small_scan_before: "scan_groups (small_container False) = [in_group small_difficulty_option]"
  by (simp add: scan_groups_def dom_eval small_container_def in_group_def small_difficulty_option_def)

lemma small_scan_after:
  "scan_groups (small_container True) = [in_group small_difficulty_option, in_group small_region_option]"
  by (simp add: scan_groups_def dom_eval small_container_def in_group_def small_difficulty_option_def
      small_region_option_def)

lemma small_classify_difficulty:
  "group_kind_and_signature (\<lambda>s. s) (in_group small_difficulty_option)
     = (''radio'', ''Difficulty'', ''radio|difficulty|items:Hard|hard|'')"
  by (simp add: group_kind_and_signature_def dom_eval in_group_def small_difficulty_option_def
      radio_canon_def radio_item_def first_label_line_def first_clean_text_def item_str_def
      str_eval Let_def)

lemma small_classify_region:
  "group_kind_and_signature (\<lambda>s. s) (in_group small_region_option)
     = (''select'', ''Region'', ''select|region|items:Europe'')"
  by (simp add: group_kind_and_signature_def dom_eval in_group_def small_region_option_def
      select_canon_def select_options_def str_eval Let_def)

lemma small_write_difficulty:
  "parse_group_to_rows_fixed ''2025-01-01 00:00:00'' (in_group small_difficulty_option) ''radio''
     ''Difficulty'' None 1 1 1 [] = (3, 3, Some 1, small_baseline)"
  by (simp add: parse_group_to_rows_fixed_def write_radios_def radio_child_step_def parent_row_def
      name_slug_def under_slug_def dom_eval in_group_def small_difficulty_option_def
      first_label_line_def str_eval zero_float_def small_baseline_def Let_def)

lemma small_write_region:
  "parse_group_to_rows_fixed ''2025-01-01 00:00:00'' (in_group small_region_option) ''select''
     ''Region'' (Some 2) 1 3 3 small_baseline = (5, 5, Some 3, small_baseline @ small_revealed)"
  by (simp add: parse_group_to_rows_fixed_def write_select_def select_child_step_def parent_row_def
      name_slug_def under_slug_def dom_eval in_group_def small_region_option_def select_options_def
      str_eval zero_float_def small_revealed_def Let_def)

lemma small_ids: "radio_value_parent_row_ids 1 small_baseline ''hard'' = Some 2"
  by (simp add: radio_value_parent_row_ids_def small_baseline_def startswith_def opt_str_def)

lemma small_values:
  "filter (\<lambda>v. v \<noteq> []) (map (\<lambda>inp. or_empty (get_attribute inp ''value''))
      (find_elements (in_group small_difficulty_option)
         [cls ''product-option-cluster-radios'', cls ''radio-option'', input_of_type ''radio''])) = [''hard'']"
  by (simp add: dom_eval in_group_def small_difficulty_option_def or_empty_def)

lemma small_trigger: "is_trigger ''radio'' ''Difficulty''" "\<not> is_trigger ''select'' ''Region''"
  by (simp_all add: is_trigger_def str_eval)

lemma small_rows_eval: "small_rows = Inr small_batch"
  by (simp add: small_rows_def extract_options_with_snapshots_fixed_def small_browser_def
      small_scan_before small_scan_after small_classify_difficulty small_classify_region
      small_trigger write_group_def small_clock_def small_write_difficulty small_ids small_values
      rescan_step_def small_write_region get_next_option_id_from_options_csv_def small_batch_def)

section \<open>Claims about the snapshot extraction\<close>

lemma tree_ok_nth:
  "tree_ok seen rows \<Longrightarrow> i < length rows \<Longrightarrow>
   (case parent_option_id (rows ! i) of
      None \<Rightarrow> option_value (rows ! i) = None
    | Some p \<Rightarrow> p \<in> set seen \<or> (\<exists>j<i. option_id (rows ! j) = p))"
proof (induction rows arbitrary: seen i)
  case Nil
  then show ?case by simp
next
  case (Cons r rows)
  show ?case
  proof (cases i)
    case 0
    with Cons.prems show ?thesis by (auto split: option.splits)
  next
    case (Suc k)
    from Cons.prems have t: "tree_ok (option_id r # seen) rows" and k: "k < length rows"
      using Suc by auto
    from Cons.IH[OF t k] show ?thesis
      unfolding Suc by (fastforce split: option.splits)
  qed
qed

lemma snapshot_loop_iteration:
  assumes "ids v = Some pid" "pid \<noteq> 0" "container_of br s = Some c0"
    and "click_radio br s dg v = (True, s')" "container_of br s' = Some c"
  shows "snapshot_loop br h clock sid dg ids (v # vals) s st
         = snapshot_loop br h clock sid dg ids vals s' (foldl (rescan_step h clock sid pid) st (scan_groups c))"
  using assms by simp

text \<open>
  C3. Every batch that one extraction pass produces has, once normalized, only the option
  types slider, range, radio, checkbox and dropdown.
\<close>

theorem vocabulary_closure:
  assumes "extract_options_with_snapshots_fixed br h clock csv_ids s0 sid = Inr rows"
    and "r \<in> set (normalize_option_types_in_rows rows)"
  shows "option_type r \<in> {Some ''slider'', Some ''range'', Some ''radio'', Some ''checkbox'', Some ''dropdown''}"
proof -
  from assms(1) have "batch_ok rows" by (rule extract_batch_ok)
  then have a: "list_all type_ok rows" by (simp add: batch_ok_def)
  from assms(2) obtain r0 where r0: "r0 \<in> set rows" and r: "r = r0\<lparr>option_type := Some (normalize_type (option_type r0))\<rparr>"
    by (auto simp: normalize_option_types_in_rows_def)
  from a r0 have "type_ok r0" by (simp add: list_all_iff)
  with r show ?thesis by (auto simp: type_ok_def persisted_types_def)
qed

theorem vocabulary_closure_witness:
  "extract_options_with_snapshots_fixed small_browser (\<lambda>s. s) small_clock [] False 1 = Inr small_batch
   \<and> list_all (\<lambda>r. option_type r \<in> {Some ''slider'', Some ''range'', Some ''radio'', Some ''checkbox'', Some ''dropdown''})
        (normalize_option_types_in_rows small_batch)
   \<and> map option_type (normalize_option_types_in_rows small_batch)
        = [Some ''radio'', Some ''radio'', Some ''dropdown'', Some ''dropdown'']"
proof -
  have e: "extract_options_with_snapshots_fixed small_browser (\<lambda>s. s) small_clock [] False 1 = Inr small_batch"
    using small_rows_eval by (simp add: small_rows_def)
  have "\<forall>r \<in> set (normalize_option_types_in_rows small_batch).
          option_type r \<in> {Some ''slider'', Some ''range'', Some ''radio'', Some ''checkbox'', Some ''dropdown''}"
    using vocabulary_closure[OF e] by blast
  then have "list_all (\<lambda>r. option_type r \<in> {Some ''slider'', Some ''range'', Some ''radio'', Some ''checkbox'', Some ''dropdown''})
        (normalize_option_types_in_rows small_batch)"
    by (simp add: list_all_iff)
  moreover have "map option_type (normalize_option_types_in_rows small_batch)
        = [Some ''radio'', Some ''radio'', Some ''dropdown'', Some ''dropdown'']"
    by (simp add: normalize_option_types_in_rows_def small_batch_def small_baseline_def small_revealed_def
        type_ok_simps)
  ultimately show ?thesis using e by simp
qed

text \<open>
  C4. In every batch that one extraction pass produces, a row with a parent reference comes
  after a row whose \<open>option_id\<close> is that reference, and a row without a parent reference
  is a group row: it carries no choice value.
\<close>

theorem tree_integrity:
  assumes "extract_options_with_snapshots_fixed br h clock csv_ids s0 sid = Inr rows"
    and "i < length rows"
  shows "case parent_option_id (rows ! i) of
           None \<Rightarrow> option_value (rows ! i) = None
         | Some p \<Rightarrow> \<exists>j<i. option_id (rows ! j) = p"
proof -
  from assms(1) have "batch_ok rows" by (rule extract_batch_ok)
  then have "tree_ok [] rows" by (simp add: batch_ok_def)
  from tree_ok_nth[OF this assms(2)] show ?thesis by (auto split: option.splits)
qed

theorem tree_integrity_witness:
  "extract_options_with_snapshots_fixed small_browser (\<lambda>s. s) small_clock [] False 1 = Inr small_batch
   \<and> (2::nat) < length small_batch
   \<and> parent_option_id (small_batch ! 2) = Some 2
   \<and> (\<exists>j<2. option_id (small_batch ! j) = 2)"
proof -
  have e: "extract_options_with_snapshots_fixed small_browser (\<lambda>s. s) small_clock [] False 1 = Inr small_batch"
    using small_rows_eval by (simp add: small_rows_def)
  have l: "(2::nat) < length small_batch"
    by (simp add: small_batch_def small_baseline_def small_revealed_def)
  have p: "parent_option_id (small_batch ! 2) = Some 2"
    by (simp add: small_batch_def small_baseline_def small_revealed_def)
  from tree_integrity[OF e l] p have "\<exists>j<2. option_id (small_batch ! j) = 2" by simp
  with e l p show ?thesis by simp
qed



section \<open>What an import leaves in the storage\<close>




lemma warn_missing_tables [simp]:
  "committed (warn_missing idm c st) = committed st" "working (warn_missing idm c st) = working st"
  by (simp_all add: warn_missing_def)



lemma execute_insert_service_Inr:
  assumes "execute_insert_service srv st v = Inr (sid, st')"
  shows "committed st' = committed st \<and> service_options (working st') = service_options (working st)
         \<and> (\<exists>a. services (working st') = services (working st) @ a)
         \<and> (sid, v) \<in> set (services (working st'))"
  using assms by (auto simp: execute_insert_service_def Let_def split: if_splits)

lemma select_service_Some:
  assumes "select_service srv st g n = Inr (Some sid)"
  shows "\<exists>v. (sid, v) \<in> set (services (working st)) \<and> sv_game_id v = g"
proof -
  from assms obtain r where r: "find (\<lambda>r. sv_game_id (snd r) = g
                         \<and> (case sv_name (snd r) of None \<Rightarrow> False | Some m \<Rightarrow> same_name srv m n))
                (services (working st)) = Some r" and f: "fst r = sid"
    by (auto simp: select_service_def split: if_splits)
  from r have "r \<in> set (services (working st))" and "sv_game_id (snd r) = g"
    by (auto simp: find_Some_iff)
  with f show ?thesis by (cases r) auto
qed

lemma insert_service_Inr:
  assumes "insert_service srv st row = Inr (sid, st')"
  shows "committed st' = committed st \<and> service_options (working st') = service_options (working st)
         \<and> (\<exists>a. services (working st') = services (working st) @ a)
         \<and> (\<exists>v. (sid, v) \<in> set (services (working st')) \<and> sv_game_id v = FORCE_GAME_ID)"
proof -
  define v where "v = \<lparr>sv_game_id = FORCE_GAME_ID, sv_name = to_nullable_str (c_name row),
             sv_description = to_nullable_str (c_description row),
             sv_price_per_unit = to_nullable_decimal (c_price_per_unit row),
             sv_sale_price = to_nullable_decimal (c_sale_price row),
             sv_icon_url = to_nullable_str (c_icon_url row),
             sv_category = to_nullable_str (c_category row)\<rparr>"
  have g: "sv_game_id v = FORCE_GAME_ID" by (simp add: v_def)
  have u: "insert_service srv st row =
     (case to_nullable_str (c_name row) of
        None \<Rightarrow> execute_insert_service srv st v
      | Some n \<Rightarrow>
          if REUSE_EXISTING_SERVICE_BY_NAME \<and> n \<noteq> []
          then (case select_service srv st FORCE_GAME_ID n of
                  Inl e \<Rightarrow> Inl e
                | Inr (Some existing) \<Rightarrow> Inr (existing, st)
                | Inr None \<Rightarrow> execute_insert_service srv st v)
          else execute_insert_service srv st v)"
    unfolding insert_service_def v_def Let_def ..
  have "execute_insert_service srv st v = Inr (sid, st')
        \<or> (\<exists>n. select_service srv st FORCE_GAME_ID n = Inr (Some sid) \<and> st' = st)"
  proof (cases "to_nullable_str (c_name row)")
    case None
    with assms u show ?thesis by simp
  next
    case (Some n)
    show ?thesis
    proof (cases "REUSE_EXISTING_SERVICE_BY_NAME \<and> n \<noteq> []")
      case False
      with assms u Some show ?thesis by simp
    next
      case True
      show ?thesis
      proof (cases "select_service srv st FORCE_GAME_ID n")
        case (Inl e)
        with assms u Some True show ?thesis by simp
      next
        case (Inr r)
        with assms u Some True show ?thesis by (cases r) auto
      qed
    qed
  qed
  then consider
      (ins) "execute_insert_service srv st v = Inr (sid, st')"
    | (sel) n where "select_service srv st FORCE_GAME_ID n = Inr (Some sid)" "st' = st"
    by blast
  then show ?thesis
  proof cases
    case ins
    from execute_insert_service_Inr[OF ins] g show ?thesis by blast
  next
    case sel
    from select_service_Some[OF sel(1)] sel(2) show ?thesis by auto
  qed
qed

lemma set_filter_split: "set (filter P xs) \<union> set (filter (\<lambda>x. \<not> P x) xs) = set xs"
  by auto








section \<open>Claims about the importer\<close>








text \<open>
  C10. \<open>insert_service\<close> does not read the column \<open>game_id\<close> of its row: two rows that
  differ only there give the same statements, the same result and the same session. The
  service it returns belongs to the game \<open>FORCE_GAME_ID\<close>, which is 21.
\<close>

theorem game_id_ignored:
  "insert_service srv st (row\<lparr>c_game_id := g\<rparr>) = insert_service srv st row
   \<and> FORCE_GAME_ID = 21
   \<and> (case insert_service srv st row of
         Inl e \<Rightarrow> True
       | Inr (sid, st') \<Rightarrow> \<exists>v. (sid, v) \<in> set (services (working st')) \<and> sv_game_id v = FORCE_GAME_ID)"
proof -
  have "insert_service srv st (row\<lparr>c_game_id := g\<rparr>) = insert_service srv st row"
    by (simp add: insert_service_def)
  moreover have "FORCE_GAME_ID = 21" by (simp add: FORCE_GAME_ID_def)
  moreover have "case insert_service srv st row of
         Inl e \<Rightarrow> True
       | Inr (sid, st') \<Rightarrow> \<exists>v. (sid, v) \<in> set (services (working st')) \<and> sv_game_id v = FORCE_GAME_ID"
  proof (cases "insert_service srv st row")
    case (Inl a)
    then show ?thesis by simp
  next
    case (Inr b)
    obtain sid st' where b: "b = (sid, st')" by (cases b) auto
    from insert_service_Inr[OF Inr[unfolded b]] Inr b show ?thesis by simp
  qed
  ultimately show ?thesis by blast
qed

section \<open>Claims about the classifier\<close>

subsection \<open>Joined items\<close>

lemma join_Cons: "join sep (x # xs) = x @ concat (map (\<lambda>y. sep @ y) xs)"
  by (induction xs arbitrary: x) auto

lemma join_middle:
  "join sep (pre @ x # post) = concat (map (\<lambda>y. y @ sep) pre) @ x @ concat (map (\<lambda>y. sep @ y) post)"
proof (induction pre)
  case Nil
  show ?case by (simp add: join_Cons)
next
  case (Cons p pre)
  have "join sep ((p # pre) @ x # post) = p @ sep @ join sep (pre @ x # post)"
    by (cases pre) auto
  then show ?case using Cons by simp
qed

lemma join_one_changed:
  "x \<noteq> y \<Longrightarrow> join sep (pre @ x # post) \<noteq> join sep (pre @ y # post)"
  by (simp add: join_middle)

lemma item_str_one_changed: "one_field_changed x y \<Longrightarrow> item_str x \<noteq> item_str y"
  by (cases x; cases y) (auto simp: one_field_changed_def item_str_def)

lemma items_one_changed:
  "one_field_changed x y \<Longrightarrow>
   join sep (map item_str pre @ item_str x # map item_str post)
     \<noteq> join sep (map item_str pre @ item_str y # map item_str post)"
  by (rule join_one_changed[OF item_str_one_changed])

subsection \<open>The example groups, evaluated\<close>

lemma button_group_sig:
  "group_kind_and_signature (\<lambda>s. s) (button_group price) = (''buttons'', ''Tier'', ''buttons|tier|items:Gold'')"
  by (simp add: group_kind_and_signature_def button_group_def dom_eval buttons_canon_def button_item_def
      str_eval Let_def)

lemma button_group_sig_db:
  "group_kind_and_signature_db (\<lambda>s. s) (button_group price) = (''buttons'', ''Tier'', ''buttons|Tier|items:Gold'')"
  by (simp add: group_kind_and_signature_db_def button_group_def dom_eval buttons_canon_db_def button_item_def
      or_else_def str_eval Let_def)

lemma radio_cluster_items:
  "some_items radio_item (find_elements (radio_cluster ''+5 $'') [cls ''radio-option'']) = [] @ (''Hard'', ''hard'', ''+5 $'') # []"
  "some_items radio_item (find_elements (radio_cluster ''+9 $'') [cls ''radio-option'']) = [] @ (''Hard'', ''hard'', ''+9 $'') # []"
  by (simp_all add: radio_cluster_def dom_eval radio_item_def first_label_line_def first_clean_text_def
      str_eval Let_def)

lemma checkbox_cluster_items:
  "some_items checkbox_item (find_elements (checkbox_cluster ''stream'') [cls ''checkbox-option'']) = [] @ (''Stream'', ''stream'', []) # []"
  "some_items checkbox_item (find_elements (checkbox_cluster ''live'') [cls ''checkbox-option'']) = [] @ (''Stream'', ''live'', []) # []"
  by (simp_all add: checkbox_cluster_def dom_eval checkbox_item_def first_clean_text_def
      str_eval Let_def)

lemma button_cluster_items:
  "some_items button_item (find_elements (button_cluster ''Gold'') [tg ''button'']) = [] @ ''Gold'' # []"
  "some_items button_item (find_elements (button_cluster ''Silver'') [tg ''button'']) = [] @ ''Silver'' # []"
  by (simp_all add: button_cluster_def dom_eval button_item_def str_eval Let_def)

lemma small_difficulty_clusters:
  "find_elements (in_group small_difficulty_option) [cls ''product-option-cluster-range''] = []"
  "find_elements (in_group small_difficulty_option) [cls ''product-option-cluster-radios''] \<noteq> []"
  by (simp_all add: in_group_def small_difficulty_option_def dom_eval)

lemma button_group_clusters:
  "find_elements (button_group ''+5 $'') [cls ''product-option-cluster-range''] = []"
  "find_elements (button_group ''+5 $'') [cls ''product-option-cluster-radios''] = []"
  "find_elements (button_group ''+5 $'') [cls ''product-option-cluster-buttons''] \<noteq> []"
  by (simp_all add: button_group_def dom_eval)

lemma checkbox_group_clusters:
  "find_elements checkbox_group [cls ''product-option-cluster-range''] = []"
  "find_elements checkbox_group [cls ''product-option-cluster-radios''] = []"
  "find_elements checkbox_group [cls ''product-option-cluster-buttons''] = []"
  "find_elements checkbox_group [cls ''product-option-cluster-checkboxes''] \<noteq> []"
  by (simp_all add: checkbox_group_def checkbox_cluster_def dom_eval)

lemma shown_range_counts:
  "find_elements (shown_range_group False) [cls ''product-option-cluster-range''] \<noteq> []"
  "is_visible (shown_range_group False)"
  "length (find_elements (shown_range_group False)
      [cls ''product-option-cluster-range'', cls ''range__body'', cls ''range__knob'']) = 1"
  "length (find_elements (shown_range_group False)
      [cls ''product-option-cluster-range'', cls ''input-container'', input_of_type ''number'']) = 1"
  "length (find_elements (hd (find_elements (shown_range_group False) [cls ''product-option-cluster-range'']))
      [cls ''range__body'', cls ''range__knob'']) = 1"
  "length (find_elements (hd (find_elements (shown_range_group False) [cls ''product-option-cluster-range'']))
      [cls ''input-container'', tg ''input'']) = 2"
  by (simp_all add: shown_range_group_def dom_eval)

lemma hidden_range_kind: "fst (group_kind_and_signature (\<lambda>s. s) hidden_range_group) = ''unknown''"
  by (simp add: group_kind_and_signature_def hidden_range_group_def dom_eval Let_def)

lemma hidden_range_knobs:
  "find_elements hidden_range_group [cls ''product-option-cluster-range''] \<noteq> []
   \<and> length (find_elements hidden_range_group
        [cls ''product-option-cluster-range'', cls ''range__body'', cls ''range__knob'']) = 2"
  by (simp add: hidden_range_group_def dom_eval)

subsection \<open>Signature content\<close>

text \<open>
  C5 (as amended). The canonical string of a radio group and of a checkbox group joins, for
  each visible choice in document order, its label, its value and its price text, so a
  change of one of the three in one choice changes the string. The canonical string of a
  buttons group joins the labels of the visible buttons only, so a change of a label changes
  it. The signature of a group of these kinds is the digest of that string.
\<close>

theorem signature_content:
  "(one_field_changed x y
      \<and> some_items radio_item (find_elements c [cls ''radio-option'']) = pre @ x # post
      \<and> some_items radio_item (find_elements c' [cls ''radio-option'']) = pre @ y # post
    \<longrightarrow> radio_canon slug c \<noteq> radio_canon slug c')
   \<and> (one_field_changed x y
      \<and> some_items checkbox_item (find_elements c [cls ''checkbox-option'']) = pre @ x # post
      \<and> some_items checkbox_item (find_elements c' [cls ''checkbox-option'']) = pre @ y # post
    \<longrightarrow> checkbox_canon slug c \<noteq> checkbox_canon slug c')
   \<and> (l \<noteq> l'
      \<and> some_items button_item (find_elements c [tg ''button'']) = ls @ l # ls'
      \<and> some_items button_item (find_elements c' [tg ''button'']) = ls @ l' # ls'
    \<longrightarrow> buttons_canon slug c \<noteq> buttons_canon slug c' \<and> buttons_canon_db slug c \<noteq> buttons_canon_db slug c')
   \<and> (find_elements g [cls ''product-option-cluster-range''] = []
      \<and> find_elements g [cls ''product-option-cluster-radios''] \<noteq> []
    \<longrightarrow> group_kind_and_signature h g
          = (''radio'', group_label g,
             h (radio_canon (group_slug g) (hd (find_elements g [cls ''product-option-cluster-radios''])))))
   \<and> (find_elements g [cls ''product-option-cluster-range''] = []
      \<and> find_elements g [cls ''product-option-cluster-radios''] = []
      \<and> find_elements g [cls ''product-option-cluster-buttons''] \<noteq> []
    \<longrightarrow> group_kind_and_signature h g
          = (''buttons'', group_label g,
             h (buttons_canon (group_slug g) (hd (find_elements g [cls ''product-option-cluster-buttons''])))))
   \<and> (find_elements g [cls ''product-option-cluster-range''] = []
      \<and> find_elements g [cls ''product-option-cluster-radios''] = []
      \<and> find_elements g [cls ''product-option-cluster-buttons''] = []
      \<and> find_elements g [cls ''product-option-cluster-checkboxes''] \<noteq> []
    \<longrightarrow> group_kind_and_signature h g
          = (''checkbox'', group_label g,
             h (checkbox_canon (group_slug g) (hd (find_elements g [cls ''product-option-cluster-checkboxes''])))))"
  by (simp add: radio_canon_def checkbox_canon_def buttons_canon_def buttons_canon_db_def
      items_one_changed join_one_changed group_kind_and_signature_def group_label_def group_slug_def
      Let_def)

theorem signature_content_witness:
  "one_field_changed (''Hard'', ''hard'', ''+5 $'') (''Hard'', ''hard'', ''+9 $'')
   \<and> radio_canon ''difficulty'' (radio_cluster ''+5 $'') \<noteq> radio_canon ''difficulty'' (radio_cluster ''+9 $'')
   \<and> one_field_changed (''Stream'', ''stream'', []) (''Stream'', ''live'', [])
   \<and> checkbox_canon ''extras'' (checkbox_cluster ''stream'') \<noteq> checkbox_canon ''extras'' (checkbox_cluster ''live'')
   \<and> ''Gold'' \<noteq> ''Silver''
   \<and> buttons_canon ''tier'' (button_cluster ''Gold'') \<noteq> buttons_canon ''tier'' (button_cluster ''Silver'')
   \<and> fst (group_kind_and_signature (\<lambda>s. s) (in_group small_difficulty_option)) = ''radio''
   \<and> fst (group_kind_and_signature (\<lambda>s. s) (button_group ''+5 $'')) = ''buttons''
   \<and> fst (group_kind_and_signature (\<lambda>s. s) checkbox_group) = ''checkbox''"
proof -
  have r: "one_field_changed (''Hard'', ''hard'', ''+5 $'') (''Hard'', ''hard'', ''+9 $'')"
    by (simp add: one_field_changed_def)
  have k: "one_field_changed (''Stream'', ''stream'', []) (''Stream'', ''live'', [])"
    by (simp add: one_field_changed_def)
  have b: "''Gold'' \<noteq> ''Silver''" by simp
  note t1 = signature_content[of "(''Hard'', ''hard'', ''+5 $'')" "(''Hard'', ''hard'', ''+9 $'')"
      "radio_cluster ''+5 $''" "[]" "[]" "radio_cluster ''+9 $''" "''difficulty''"
      "''Gold''" "''Silver''" "[]" "[]" "in_group small_difficulty_option" "\<lambda>s. s"]
  note t2 = signature_content[of "(''Stream'', ''stream'', [])" "(''Stream'', ''live'', [])"
      "checkbox_cluster ''stream''" "[]" "[]" "checkbox_cluster ''live''" "''extras''"
      "''Gold''" "''Silver''" "[]" "[]" "button_group ''+5 $''" "\<lambda>s. s"]
  note t3 = signature_content[of "(''Stream'', ''stream'', [])" "(''Stream'', ''live'', [])"
      "button_cluster ''Gold''" "[]" "[]" "button_cluster ''Silver''" "''tier''"
      "''Gold''" "''Silver''" "[]" "[]" "checkbox_group" "\<lambda>s. s"]
  have "radio_canon ''difficulty'' (radio_cluster ''+5 $'') \<noteq> radio_canon ''difficulty'' (radio_cluster ''+9 $'')"
    using t1 r radio_cluster_items by blast
  moreover have "checkbox_canon ''extras'' (checkbox_cluster ''stream'') \<noteq> checkbox_canon ''extras'' (checkbox_cluster ''live'')"
    using t2 k checkbox_cluster_items by blast
  moreover have "buttons_canon ''tier'' (button_cluster ''Gold'') \<noteq> buttons_canon ''tier'' (button_cluster ''Silver'')"
    using t3 b button_cluster_items by blast
  moreover have "fst (group_kind_and_signature (\<lambda>s. s) (in_group small_difficulty_option)) = ''radio''"
    using t1 small_difficulty_clusters by simp
  moreover have "fst (group_kind_and_signature (\<lambda>s. s) (button_group ''+5 $'')) = ''buttons''"
    using t2 button_group_clusters by simp
  moreover have "fst (group_kind_and_signature (\<lambda>s. s) checkbox_group) = ''checkbox''"
    using t3 checkbox_group_clusters by simp
  ultimately show ?thesis using r k b by blast
qed

text \<open>
  C5 (as stated) fails for buttons: two buttons groups that differ only in the price text
  their button shows have the same signature, in both classifiers.
\<close>

theorem signature_content_counterexample:
  "group_kind_and_signature (\<lambda>s. s) (button_group ''+5 $'')
     = group_kind_and_signature (\<lambda>s. s) (button_group ''+9 $'')
   \<and> group_kind_and_signature_db (\<lambda>s. s) (button_group ''+5 $'')
     = group_kind_and_signature_db (\<lambda>s. s) (button_group ''+9 $'')
   \<and> button_group ''+5 $'' \<noteq> button_group ''+9 $''"
  by (simp add: button_group_sig button_group_sig_db) (simp add: button_group_def vis_def)

subsection \<open>Range or slider\<close>

text \<open>
  C6 (as amended). On a visible group with a range cluster the classifier of
  \<open>complete_code.py\<close> answers range when the range clusters of the group hold at least two
  knobs or at least two number inputs, and slider otherwise, whatever other clusters the
  group has. On any group with a range cluster the classifier of \<open>scrapper_db.py\<close> answers
  range when the first range cluster holds at least two knobs or at least two inputs, of
  any type, in its input containers, and slider otherwise.
\<close>

theorem range_or_slider:
  "(find_elements g [cls ''product-option-cluster-range''] \<noteq> [] \<and> is_visible g \<longrightarrow>
      fst (group_kind_and_signature h g)
        = (if 2 \<le> length (find_elements g
                    [cls ''product-option-cluster-range'', cls ''range__body'', cls ''range__knob''])
              \<or> 2 \<le> length (find_elements g
                    [cls ''product-option-cluster-range'', cls ''input-container'', input_of_type ''number''])
           then ''range'' else ''slider''))
   \<and> (find_elements g [cls ''product-option-cluster-range''] \<noteq> [] \<longrightarrow>
      fst (group_kind_and_signature_db h g)
        = (if 2 \<le> length (find_elements (hd (find_elements g [cls ''product-option-cluster-range'']))
                    [cls ''range__body'', cls ''range__knob''])
              \<or> 2 \<le> length (find_elements (hd (find_elements g [cls ''product-option-cluster-range'']))
                    [cls ''input-container'', tg ''input''])
           then ''range'' else ''slider''))"
  by (simp add: group_kind_and_signature_def group_kind_and_signature_db_def detect_slider_kind_def
      range_signature_db_def Let_def split: prod.splits)

theorem range_or_slider_witness:
  "find_elements (shown_range_group False) [cls ''product-option-cluster-range''] \<noteq> []
   \<and> is_visible (shown_range_group False)
   \<and> fst (group_kind_and_signature (\<lambda>s. s) (shown_range_group False)) = ''slider''
   \<and> fst (group_kind_and_signature_db (\<lambda>s. s) (shown_range_group False)) = ''range''"
  using range_or_slider[of "shown_range_group False" "\<lambda>s. s"] shown_range_counts
  by simp

text \<open>
  C6 (as stated) fails on a group that is not visible: its range cluster has two knobs, and
  the classifier of \<open>complete_code.py\<close> answers neither range nor slider.
\<close>

theorem range_or_slider_counterexample:
  "find_elements hidden_range_group [cls ''product-option-cluster-range''] \<noteq> []
   \<and> 2 \<le> length (find_elements hidden_range_group
              [cls ''product-option-cluster-range'', cls ''range__body'', cls ''range__knob''])
   \<and> fst (group_kind_and_signature (\<lambda>s. s) hidden_range_group) \<noteq> ''range''
   \<and> fst (group_kind_and_signature (\<lambda>s. s) hidden_range_group) \<noteq> ''slider''"
  using hidden_range_kind hidden_range_knobs by simp

section \<open>Claims about price modifiers\<close>

subsection \<open>Floats of the examples\<close>

lemma round_half_even_of_int [simp]: "round_half_even (of_int n) = n"
  by (simp add: round_half_even_def)

lemma round_half_even_numeral [simp]: "round_half_even (numeral k) = numeral k"
  using round_half_even_of_int[of "numeral k"] by simp

lemma floor_rat_numeral_div [simp]: "\<lfloor>numeral a / numeral b :: rat\<rfloor> = numeral a div numeral b"
  using floor_divide_of_int_eq[of "numeral a" "numeral b", where ?'a = rat] by simp

lemma ilog2_50: "ilog2 50 = 5"
  by (simp add: ilog2_def bitlen_def compute_floorlog)

lemma round64_50: "round64 False 50 = Finite False 50"
  by (simp add: round64_def ilog2_50 Let_def pow2_def)

lemma ilog2_643: "ilog2 (643 / 100) = 2"
  by (simp add: ilog2_def bitlen_def compute_floorlog)

lemma round64_643: "round64 False (643 / 100) = Finite False (904942050124759 / 140737488355328)"
  by (simp add: round64_def ilog2_643 Let_def pow2_def round_half_even_def)

lemma py_float_50: "py_float ''50'' = Some (Finite False 50)"
  by (simp add: py_float_def parse_decimal_def is_digit_def digits_val_def split_sign_def
      str_eval pow10_def round64_50 Let_def)

lemma py_float_643: "py_float ''6.43'' = Some (round64 False (643 / 100))"
proof -
  have "parse_decimal ''6.43'' = Some (643, - 2)"
    by (simp add: parse_decimal_def is_digit_def digits_val_def Let_def)
  then show ?thesis
    by (simp add: py_float_def is_digit_def split_sign_def str_eval pow10_def Let_def)
qed

lemma py_float_unparsable: "py_float ''1.2.3'' = None" "py_float ''abc'' = None"
  by (simp_all add: py_float_def parse_decimal_def is_digit_def digits_val_def split_sign_def
      str_eval Let_def)

subsection \<open>The examples\<close>

lemma parse_modifier_percent: "parse_modifier (Some ''+50%'') = Some (Percent, Finite False 50)"
  by (simp add: parse_modifier_def str_eval endswith_def py_float_50 Let_def)

lemma parse_modifier_euro:
  "parse_modifier (Some (''+6,43 '' @ euro)) = Some (Absolute, round64 False (643 / 100))"
  by (simp add: parse_modifier_def str_eval endswith_def euro_def keep_price_chars_def is_digit_def
      fix_separators_def py_float_643 Let_def)

lemma parse_modifier_free: "parse_modifier (Some ''Free'') = None"
  by (simp add: parse_modifier_def str_eval endswith_def keep_price_chars_def is_digit_def Let_def)

lemma parse_modifier_empty: "parse_modifier (Some []) = None" "parse_modifier None = None"
  by (simp_all add: parse_modifier_def)

lemma parse_modifier_unparsable:
  "parse_modifier (Some ''1.2.3'') = None" "parse_modifier (Some ''abc%'') = None"
  by (simp_all add: parse_modifier_def str_eval endswith_def keep_price_chars_def is_digit_def
      fix_separators_def py_float_unparsable Let_def)

lemma parse_price_modifier_free:
  "parse_price_modifier ''Free'' = zero_float" "parse_price_modifier [] = zero_float"
  by (simp_all add: parse_price_modifier_def str_eval)

lemma parse_price_modifier_unparsable: "parse_price_modifier ''1.2.3'' = zero_float"
  by (simp add: parse_price_modifier_def parse_currency_to_decimal_def str_eval keep_price_chars_def
      is_digit_def fix_separators_def py_float_unparsable Let_def)

subsection \<open>The leading plus\<close>

lemma dropWhile_snoc_keep: "\<not> P c \<Longrightarrow> dropWhile P (xs @ [c]) = dropWhile P xs @ [c]"
  by (induction xs) auto

lemma rstrip_Cons: "\<not> is_space c \<Longrightarrow> rstrip (c # s) = c # rstrip s"
  by (simp add: rstrip_def dropWhile_snoc_keep)

lemma strip_plus:
  assumes "s \<noteq> []" "\<not> is_space (hd s)"
  shows "dropWhile (\<lambda>c. c = CHR ''+'') (strip (''+'' @ s)) = dropWhile (\<lambda>c. c = CHR ''+'') (strip s)"
proof -
  have p: "\<not> is_space CHR ''+''" by (simp add: is_space_def)
  have "strip (''+'' @ s) = CHR ''+'' # rstrip s"
    using p by (simp add: strip_def lstrip_def rstrip_Cons)
  moreover have "strip s = rstrip s"
    using assms by (cases s) (simp_all add: strip_def lstrip_def)
  ultimately show ?thesis by simp
qed

lemma parse_modifier_plus:
  assumes "s \<noteq> []" "\<not> is_space (hd s)"
  shows "parse_modifier (Some (''+'' @ s)) = parse_modifier (Some s)"
  using assms(1) strip_plus[OF assms] by (simp add: parse_modifier_def)

text \<open>
  C7 (as amended). \<open>_parse_modifier\<close> drops a leading plus. For a text that ends in a
  percent sign after trimming it returns a percent modifier whose value is the float of the
  rest, with a comma read as the decimal point: \<open>+50%\<close> gives 50.0 percent. The text
  \<open>+6,43\<close> followed by a euro sign gives the absolute modifier 6.43, the float nearest to
  643/100. The empty text and no text give null, and so does \<open>Free\<close>, which holds none of
  the characters of a number; the zero for \<open>Free\<close> is what \<open>parse_price_modifier\<close> returns.
  Text that is no number gives null, or \<open>0.00\<close> from \<open>parse_price_modifier\<close>; neither
  function raises.
\<close>

theorem price_modifier_parsing:
  "parse_modifier (Some ''+50%'') = Some (Percent, Finite False 50)
   \<and> parse_modifier (Some (''+6,43 '' @ euro)) = Some (Absolute, round64 False (643 / 100))
   \<and> parse_modifier (Some []) = None \<and> parse_modifier None = None
   \<and> parse_modifier (Some ''Free'') = None
   \<and> parse_price_modifier ''Free'' = zero_float \<and> parse_price_modifier [] = zero_float
   \<and> parse_modifier (Some ''1.2.3'') = None \<and> parse_modifier (Some ''abc%'') = None
   \<and> parse_price_modifier ''1.2.3'' = zero_float
   \<and> (s \<noteq> [] \<and> \<not> is_space (hd s) \<longrightarrow> parse_modifier (Some (''+'' @ s)) = parse_modifier (Some s))
   \<and> (r \<noteq> [] \<and> endswith (strip (dropWhile (\<lambda>c. c = CHR ''+'') (strip r))) ''%'' \<longrightarrow>
        parse_modifier (Some r)
          = map_option (Pair Percent)
              (py_float (replace_chr CHR '','' ''.''
                 (strip (butlast (strip (dropWhile (\<lambda>c. c = CHR ''+'') (strip r))))))))"
proof -
  have "r \<noteq> [] \<and> endswith (strip (dropWhile (\<lambda>c. c = CHR ''+'') (strip r))) ''%'' \<longrightarrow>
        parse_modifier (Some r)
          = map_option (Pair Percent)
              (py_float (replace_chr CHR '','' ''.''
                 (strip (butlast (strip (dropWhile (\<lambda>c. c = CHR ''+'') (strip r)))))))"
    by (auto simp: parse_modifier_def Let_def split: option.splits)
  then show ?thesis
    using parse_modifier_percent parse_modifier_euro parse_modifier_empty parse_modifier_free
      parse_price_modifier_free parse_modifier_unparsable parse_price_modifier_unparsable
      parse_modifier_plus[of s]
    by simp
qed

theorem price_modifier_parsing_witness:
  "''50%'' \<noteq> [] \<and> \<not> is_space (hd ''50%'')
   \<and> parse_modifier (Some (''+'' @ ''50%'')) = parse_modifier (Some ''50%'')
   \<and> endswith (strip (dropWhile (\<lambda>c. c = CHR ''+'') (strip ''+50%''))) ''%''
   \<and> parse_modifier (Some ''50%'') = Some (Percent, Finite False 50)"
proof -
  have a: "''50%'' \<noteq> [] \<and> \<not> is_space (hd ''50%'')" by (simp add: is_space_def)
  have b: "endswith (strip (dropWhile (\<lambda>c. c = CHR ''+'') (strip ''+50%''))) ''%''"
    by (simp add: str_eval endswith_def)
  from price_modifier_parsing[of "''50%''" "''+50%''"] a
  have c: "parse_modifier (Some (''+'' @ ''50%'')) = parse_modifier (Some ''50%'')"
    and d: "parse_modifier (Some ''+50%'') = Some (Percent, Finite False 50)"
    by blast+
  from c d have "parse_modifier (Some ''50%'') = Some (Percent, Finite False 50)" by simp
  with a b c show ?thesis by blast
qed

text \<open>
  C7 (as stated) fails on \<open>Free\<close>: \<open>_parse_modifier\<close> returns null, not a zero absolute
  modifier.
\<close>

theorem price_modifier_parsing_counterexample:
  "parse_modifier (Some ''Free'') \<noteq> Some (Absolute, zero_float)"
  by (simp add: parse_modifier_free)


end
